theory Spec2Isabelle
  imports Complex_Main "HOL-Library.AList" "HOL-Library.Multiset" "HOL-Library.Word"
begin

section \<open>MyCoin: chain state and DPoS consensus\<close>

text \<open>
  A shallow embedding of \<^verbatim>\<open>src/core/blockchain.js\<close> (class Blockchain) and
  \<^verbatim>\<open>src/consensus/dpos.js\<close> (class DPoSConsensus).

  A block is a JavaScript object: the list of its own properties in insertion order, the
  order \<^verbatim>\<open>JSON.stringify\<close> follows. A property of a block holds \<^verbatim>\<open>undefined\<close>, \<^verbatim>\<open>null\<close> or a
  value of the kind the code expects there: a number (possibly \<^verbatim>\<open>NaN\<close>), a string, or an
  array whose elements are transaction objects or \<^verbatim>\<open>null\<close>. A transaction is a record with
  optional fields (\<open>None\<close> is the absent property). Numbers are exact rationals. A method
  that mutates \<^verbatim>\<open>this\<close> takes the object and returns the new one; a method that can throw
  returns \<open>error + result\<close> together with the object as the throw leaves it, since a
  JavaScript exception does not undo the assignments made before it.
\<close>

subsection \<open>Data model\<close>

text \<open>The fields of \<^verbatim>\<open>Transaction\<close> (src/core/transaction.js); \<open>txTimestamp\<close>,
  \<open>txSignature\<close> and \<open>txHash\<close> are the source's \<^verbatim>\<open>timestamp\<close>, \<^verbatim>\<open>signature\<close> and
  \<^verbatim>\<open>hash\<close>, renamed apart from the block's properties.\<close>

record transaction =
  sender :: "string option"
  recipient :: "string option"
  amount :: "rat option"
  fee :: "rat option"
  txTimestamp :: "int option"
  txSignature :: "string option"
  txHash :: "string option"

text \<open>What a property of a block holds, a number, and the answers of \<^verbatim>\<open>typeof\<close>.\<close>

datatype 'a js = Undefined | Null | Value 'a

datatype jsnumber = NaN | Num rat

datatype jstype = TypeUndefined | TypeObject | TypeNumber | TypeString

text \<open>The properties \<^verbatim>\<open>createGenesisBlock\<close> and \<^verbatim>\<open>createBlock\<close> give a block. An element
  \<open>None\<close> of a transactions array is \<^verbatim>\<open>null\<close>.\<close>

datatype property =
    Index "jsnumber js"
  | Timestamp "jsnumber js"
  | Transactions "transaction option list js"
  | PreviousHash "string js"
  | Hash "string js"
  | Validator "string js"
  | Signature "string js"
  | Difficulty "jsnumber js"
  | Nonce "jsnumber js"

type_synonym block = "property list"

text \<open>The fields of \<^verbatim>\<open>Blockchain\<close>. The chain holds block objects: the constructor pushes
  one, \<^verbatim>\<open>addBlock\<close> pushes its argument after writing a property of it, and
  \<^verbatim>\<open>replaceChain\<close> installs a candidate only after reading a property of every
  element.\<close>

record blockchain =
  chain :: "block list"
  currentTransactions :: "transaction list"
  difficulty :: int
  blockTime :: int
  maxSupply :: int
  blockReward :: rat
  halvingInterval :: nat

text \<open>\<^verbatim>\<open>throw new Error("Invalid transaction")\<close>, and the \<^verbatim>\<open>TypeError\<close> the runtime throws
  when a property of \<^verbatim>\<open>undefined\<close> or \<^verbatim>\<open>null\<close> is read or a value that is not a function
  is called.\<close>

datatype error = InvalidTransaction | TypeError

text \<open>The result of \<^verbatim>\<open>JSON.stringify\<close> on a block, as the tree its text spells. Two such
  texts are the same string exactly when they spell the same tree, so the model compares
  trees where the code compares texts. \<open>JText\<close> is the text of a transaction object, which
  the runtime writes between braces: the record of a transaction does not keep the order
  of its properties, so its text is the runtime's, the parameter \<open>stringify\<close>.\<close>

datatype json =
    JNull
  | JNumber rat
  | JString string
  | JText string
  | JArray "json list"
  | JObject "(string \<times> json) list"

subsection \<open>JavaScript operators\<close>

text \<open>\<^verbatim>\<open>!x\<close> for an optional string: \<^verbatim>\<open>undefined\<close> and the empty string are falsy.\<close>

definition falsy :: "string option \<Rightarrow> bool" where
  "falsy x = (case x of None \<Rightarrow> True | Some s \<Rightarrow> s = [])"

text \<open>\<^verbatim>\<open>x <= 0\<close> for an optional number: false on \<^verbatim>\<open>undefined\<close>.\<close>

definition leZero :: "rat option \<Rightarrow> bool" where
  "leZero x = (case x of None \<Rightarrow> False | Some r \<Rightarrow> r \<le> 0)"

text \<open>\<^verbatim>\<open>xs[i]\<close>: \<^verbatim>\<open>undefined\<close> out of range.\<close>

definition elemAt :: "'a list \<Rightarrow> nat \<Rightarrow> 'a option" where
  "elemAt xs i = (if i < length xs then Some (xs ! i) else None)"

text \<open>\<^verbatim>\<open>typeof\<close> of a property that holds a number, a string or an array: \<^verbatim>\<open>typeof null\<close>
  is \<^verbatim>\<open>'object'\<close>, and so is the type of an array; \<^verbatim>\<open>NaN\<close> is a number.\<close>

definition typeofNumber :: "jsnumber js \<Rightarrow> jstype" where
  "typeofNumber v =
     (case v of Undefined \<Rightarrow> TypeUndefined | Null \<Rightarrow> TypeObject | Value n \<Rightarrow> TypeNumber)"

definition typeofString :: "string js \<Rightarrow> jstype" where
  "typeofString v =
     (case v of Undefined \<Rightarrow> TypeUndefined | Null \<Rightarrow> TypeObject | Value s \<Rightarrow> TypeString)"

definition typeofArray :: "'a list js \<Rightarrow> jstype" where
  "typeofArray v =
     (case v of Undefined \<Rightarrow> TypeUndefined | Null \<Rightarrow> TypeObject | Value xs \<Rightarrow> TypeObject)"

text \<open>The conversion to a number that \<^verbatim>\<open>+\<close> and \<^verbatim>\<open>-\<close> apply to an operand:
  \<^verbatim>\<open>undefined\<close> becomes \<^verbatim>\<open>NaN\<close>, \<^verbatim>\<open>null\<close> becomes 0. Arithmetic with \<^verbatim>\<open>NaN\<close> gives
  \<^verbatim>\<open>NaN\<close>, and every comparison with \<^verbatim>\<open>NaN\<close> is false.\<close>

definition toNumber :: "jsnumber js \<Rightarrow> jsnumber" where
  "toNumber v = (case v of Undefined \<Rightarrow> NaN | Null \<Rightarrow> Num 0 | Value n \<Rightarrow> n)"

fun jsPlus :: "jsnumber \<Rightarrow> jsnumber \<Rightarrow> jsnumber" where
  "jsPlus (Num a) (Num b) = Num (a + b)"
| "jsPlus _ _ = NaN"

fun jsMinus :: "jsnumber \<Rightarrow> jsnumber \<Rightarrow> jsnumber" where
  "jsMinus (Num a) (Num b) = Num (a - b)"
| "jsMinus _ _ = NaN"

fun jsLess :: "jsnumber \<Rightarrow> jsnumber \<Rightarrow> bool" where
  "jsLess (Num a) (Num b) = (a < b)"
| "jsLess _ _ = False"

subsection \<open>Reading and writing the properties of a block\<close>

text \<open>\<^verbatim>\<open>block.index\<close> and the other reads: the value of the property, \<^verbatim>\<open>undefined\<close> when the
  block has none of that name.\<close>

fun index :: "block \<Rightarrow> jsnumber js" where
  "index [] = Undefined"
| "index (Index v # ps) = v"
| "index (p # ps) = index ps"

fun timestamp :: "block \<Rightarrow> jsnumber js" where
  "timestamp [] = Undefined"
| "timestamp (Timestamp v # ps) = v"
| "timestamp (p # ps) = timestamp ps"

fun transactions :: "block \<Rightarrow> transaction option list js" where
  "transactions [] = Undefined"
| "transactions (Transactions v # ps) = v"
| "transactions (p # ps) = transactions ps"

fun previousHash :: "block \<Rightarrow> string js" where
  "previousHash [] = Undefined"
| "previousHash (PreviousHash v # ps) = v"
| "previousHash (p # ps) = previousHash ps"

fun hash :: "block \<Rightarrow> string js" where
  "hash [] = Undefined"
| "hash (Hash v # ps) = v"
| "hash (p # ps) = hash ps"

fun validator :: "block \<Rightarrow> string js" where
  "validator [] = Undefined"
| "validator (Validator v # ps) = v"
| "validator (p # ps) = validator ps"

text \<open>\<^verbatim>\<open>block.index = v\<close> and \<^verbatim>\<open>block.previousHash = v\<close>: an existing property keeps its
  place, a new one is added last.\<close>

fun setIndex :: "jsnumber js \<Rightarrow> block \<Rightarrow> block" where
  "setIndex v [] = [Index v]"
| "setIndex v (Index w # ps) = Index v # ps"
| "setIndex v (p # ps) = p # setIndex v ps"

fun setPreviousHash :: "string js \<Rightarrow> block \<Rightarrow> block" where
  "setPreviousHash v [] = [PreviousHash v]"
| "setPreviousHash v (PreviousHash w # ps) = PreviousHash v # ps"
| "setPreviousHash v (p # ps) = p # setPreviousHash v ps"

subsection \<open>JSON.stringify on a block\<close>

text \<open>A property that holds \<^verbatim>\<open>undefined\<close> is left out; \<^verbatim>\<open>null\<close> and \<^verbatim>\<open>NaN\<close> are written
  \<^verbatim>\<open>null\<close>; a \<^verbatim>\<open>null\<close> element of an array is written \<^verbatim>\<open>null\<close>.\<close>

fun numberJson :: "jsnumber \<Rightarrow> json" where
  "numberJson NaN = JNull"
| "numberJson (Num r) = JNumber r"

fun valueJson :: "('a \<Rightarrow> json) \<Rightarrow> 'a js \<Rightarrow> json option" where
  "valueJson f Undefined = None"
| "valueJson f Null = Some JNull"
| "valueJson f (Value v) = Some (f v)"

fun elementJson :: "(transaction \<Rightarrow> string) \<Rightarrow> transaction option \<Rightarrow> json" where
  "elementJson stringify None = JNull"
| "elementJson stringify (Some tx) = JText (stringify tx)"

fun propertyJson :: "(transaction \<Rightarrow> string) \<Rightarrow> property \<Rightarrow> (string \<times> json) option" where
  "propertyJson stringify (Index v) = map_option (Pair ''index'') (valueJson numberJson v)"
| "propertyJson stringify (Timestamp v) = map_option (Pair ''timestamp'') (valueJson numberJson v)"
| "propertyJson stringify (Transactions v) =
     map_option (Pair ''transactions'')
       (valueJson (\<lambda>xs. JArray (map (elementJson stringify) xs)) v)"
| "propertyJson stringify (PreviousHash v) = map_option (Pair ''previousHash'') (valueJson JString v)"
| "propertyJson stringify (Hash v) = map_option (Pair ''hash'') (valueJson JString v)"
| "propertyJson stringify (Validator v) = map_option (Pair ''validator'') (valueJson JString v)"
| "propertyJson stringify (Signature v) = map_option (Pair ''signature'') (valueJson JString v)"
| "propertyJson stringify (Difficulty v) = map_option (Pair ''difficulty'') (valueJson numberJson v)"
| "propertyJson stringify (Nonce v) = map_option (Pair ''nonce'') (valueJson numberJson v)"

definition blockJson :: "(transaction \<Rightarrow> string) \<Rightarrow> block \<Rightarrow> json" where
  "blockJson stringify b = JObject (List.map_filter (propertyJson stringify) b)"

text \<open>\<^verbatim>\<open>JSON.stringify(chain[0])\<close> for an array whose elements are block objects or \<^verbatim>\<open>null\<close>:
  \<^verbatim>\<open>undefined\<close> (\<open>None\<close>) on an empty array, the text \<^verbatim>\<open>null\<close> on a \<^verbatim>\<open>null\<close> element.\<close>

definition firstJson :: "(transaction \<Rightarrow> string) \<Rightarrow> block option list \<Rightarrow> json option" where
  "firstJson stringify c =
     (case elemAt c 0 of
        None \<Rightarrow> None
      | Some None \<Rightarrow> Some JNull
      | Some (Some b) \<Rightarrow> Some (blockJson stringify b))"

subsection \<open>Blockchain (src/core/blockchain.js)\<close>

text \<open>\<^verbatim>\<open>createGenesisBlock\<close>; \<open>now\<close> is the value of \<^verbatim>\<open>Date.now()\<close>
  (milliseconds since the epoch) and \<open>d\<close> the value of \<^verbatim>\<open>this.difficulty\<close>.\<close>

definition genesisBlock :: "nat \<Rightarrow> int \<Rightarrow> block" where
  "genesisBlock now d =
     [Index (Value (Num 0)), Timestamp (Value (Num (of_nat now))), Transactions (Value []),
      PreviousHash (Value (replicate 64 CHR ''0'')), Hash (Value (replicate 64 CHR ''0'')),
      Validator (Value ''MyCoin Genesis''), Signature (Value (replicate 128 CHR ''0'')),
      Difficulty (Value (Num (of_int d))), Nonce (Value (Num 0))]"

text \<open>The constructor: the fields' initial values, then the genesis block.\<close>

definition newBlockchain :: "nat \<Rightarrow> blockchain" where
  "newBlockchain now =
     \<lparr> chain = [genesisBlock now 4], currentTransactions = [], difficulty = 4,
       blockTime = 3, maxSupply = 100000000, blockReward = 50, halvingInterval = 840000 \<rparr>"

text \<open>\<^verbatim>\<open>getLatestBlock\<close>: \<^verbatim>\<open>this.chain[this.chain.length - 1]\<close>, \<^verbatim>\<open>undefined\<close> on an empty
  chain.\<close>

definition getLatestBlock :: "blockchain \<Rightarrow> block option" where
  "getLatestBlock s = (if chain s = [] then None else Some (last (chain s)))"

text \<open>\<^verbatim>\<open>getCurrentBlockReward\<close>. \<^verbatim>\<open>Math.floor(height / halvingInterval)\<close> is the floor of
  the quotient; a zero interval makes the quotient \<^verbatim>\<open>Infinity\<close> (capped to 64) or, at
  height 0, \<^verbatim>\<open>NaN\<close> (\<open>None\<close>).\<close>

definition getCurrentBlockReward :: "blockchain \<Rightarrow> rat option" where
  "getCurrentBlockReward s =
     (let currentBlockHeight = length (chain s) in
      if halvingInterval s = 0 then
        (if currentBlockHeight = 0 then None else Some (blockReward s / 2 ^ 64))
      else
        (let halvings = nat \<lfloor>(of_nat currentBlockHeight :: rat) / of_nat (halvingInterval s)\<rfloor>;
             cappedHalvings = min halvings 64
         in Some (blockReward s / 2 ^ cappedHalvings)))"

text \<open>The guard of \<^verbatim>\<open>addTransaction\<close> (line 73):
  \<^verbatim>\<open>!transaction.sender || !transaction.recipient || transaction.amount <= 0\<close>.\<close>

definition rejectedAtSubmission :: "transaction \<Rightarrow> bool" where
  "rejectedAtSubmission tx = (falsy (sender tx) \<or> falsy (recipient tx) \<or> leZero (amount tx))"

text \<open>\<^verbatim>\<open>addTransaction\<close>: throws on a rejected transaction; otherwise pushes it and returns
  \<^verbatim>\<open>this.getLatestBlock().index + 1\<close> (a \<^verbatim>\<open>TypeError\<close> on an empty chain, after the push).\<close>

definition addTransaction :: "blockchain \<Rightarrow> transaction \<Rightarrow> (error + jsnumber) \<times> blockchain" where
  "addTransaction s tx =
     (if rejectedAtSubmission tx then (Inl InvalidTransaction, s)
      else
        (let s' = s\<lparr>currentTransactions := currentTransactions s @ [tx]\<rparr> in
         case getLatestBlock s' of
           None \<Rightarrow> (Inl TypeError, s')
         | Some b \<Rightarrow> (Inr (jsPlus (toNumber (index b)) (Num 1)), s')))"

text \<open>The identity \<^verbatim>\<open>addBlock\<close> compares transactions by:
  \<^verbatim>\<open>tx.hash || JSON.stringify(tx)\<close>.\<close>

definition txKey :: "(transaction \<Rightarrow> string) \<Rightarrow> transaction \<Rightarrow> string" where
  "txKey stringify tx =
     (case txHash tx of
        None \<Rightarrow> stringify tx
      | Some h \<Rightarrow> if h = [] then stringify tx else h)"

text \<open>\<^verbatim>\<open>block.transactions.map(tx => tx.hash || JSON.stringify(tx))\<close> on the elements of the
  array, from the first: reading \<^verbatim>\<open>tx.hash\<close> of a \<^verbatim>\<open>null\<close> element throws a \<^verbatim>\<open>TypeError\<close>
  (\<open>None\<close>).\<close>

fun txKeys :: "(transaction \<Rightarrow> string) \<Rightarrow> transaction option list \<Rightarrow> string list option" where
  "txKeys stringify [] = Some []"
| "txKeys stringify (None # txs) = None"
| "txKeys stringify (Some tx # txs) = map_option (Cons (txKey stringify tx)) (txKeys stringify txs)"

text \<open>\<^verbatim>\<open>adjustDifficulty\<close>. The difference of the two timestamps is \<^verbatim>\<open>NaN\<close> when one of them
  is; both comparisons are false then and neither branch runs.\<close>

definition adjustDifficulty :: "blockchain \<Rightarrow> blockchain" where
  "adjustDifficulty s =
     (if length (chain s) \<le> 1 then s
      else
        (let lastBlock = last (chain s);
             prevBlock = chain s ! (length (chain s) - 2);
             timeExpected = of_int (blockTime s) * 1000;
             timeTaken = jsMinus (toNumber (timestamp lastBlock)) (toNumber (timestamp prevBlock))
         in if jsLess timeTaken (Num (timeExpected * (1 / 2)))
            then s\<lparr>difficulty := difficulty s + 1\<rparr>
            else if jsLess (Num (timeExpected * 2)) timeTaken
            then s\<lparr>difficulty := max 1 (difficulty s - 1)\<rparr>
            else s))"

text \<open>The two assignments \<^verbatim>\<open>addBlock\<close> makes to its argument before it pushes it
  (lines 100 to 106): \<^verbatim>\<open>block.index = this.chain.length\<close>, and
  \<^verbatim>\<open>block.previousHash = previousBlock.hash\<close> when the two differ. \<open>n\<close> is the chain's
  length.\<close>

definition stampBlock :: "block \<Rightarrow> nat \<Rightarrow> block \<Rightarrow> block" where
  "stampBlock previousBlock n blk =
     (let b1 = setIndex (Value (Num (of_nat n))) blk
      in if previousHash b1 \<noteq> hash previousBlock
         then setPreviousHash (hash previousBlock) b1 else b1)"

text \<open>\<^verbatim>\<open>addBlock(block, validator, signature)\<close> for a block object. The statements in
  order: read the tip (a \<^verbatim>\<open>TypeError\<close> at \<^verbatim>\<open>previousBlock.hash\<close> when the chain is empty),
  stamp the index, overwrite a different previous hash, push, then
  \<^verbatim>\<open>block.transactions.map\<close> (a \<^verbatim>\<open>TypeError\<close> when the property holds no array or the array a
  \<^verbatim>\<open>null\<close> element: the block is already pushed), filter the pool, adjust the difficulty,
  return \<^verbatim>\<open>true\<close>. The arguments \<open>validator\<close> and \<open>signature\<close> are not read.\<close>

definition addBlock ::
  "(transaction \<Rightarrow> string) \<Rightarrow> blockchain \<Rightarrow> block \<Rightarrow> string \<Rightarrow> string \<Rightarrow> (error + bool) \<times> blockchain"
where
  "addBlock stringify s blk validatorId sig =
     (case getLatestBlock s of
        None \<Rightarrow> (Inl TypeError, s)
      | Some previousBlock \<Rightarrow>
          (let b2 = stampBlock previousBlock (length (chain s)) blk;
               s1 = s\<lparr>chain := chain s @ [b2]\<rparr>
           in case transactions b2 of
                Undefined \<Rightarrow> (Inl TypeError, s1)
              | Null \<Rightarrow> (Inl TypeError, s1)
              | Value txs \<Rightarrow>
                  (case txKeys stringify txs of
                     None \<Rightarrow> (Inl TypeError, s1)
                   | Some txHashes \<Rightarrow>
                       (let s2 = s1\<lparr>currentTransactions :=
                                   filter (\<lambda>tx. txKey stringify tx \<notin> set txHashes)
                                     (currentTransactions s1)\<rparr>
                        in (Inr True, adjustDifficulty s2)))))"

text \<open>\<^verbatim>\<open>isValidBlockStructure\<close>: the six \<^verbatim>\<open>typeof\<close> tests.\<close>

definition isValidBlockStructure :: "block \<Rightarrow> bool" where
  "isValidBlockStructure b =
     (typeofNumber (index b) = TypeNumber \<and>
      typeofNumber (timestamp b) = TypeNumber \<and>
      typeofArray (transactions b) = TypeObject \<and>
      typeofString (previousHash b) = TypeString \<and>
      typeofString (hash b) = TypeString \<and>
      typeofString (validator b) = TypeString)"

text \<open>The loop shared by \<^verbatim>\<open>isChainValid\<close> and \<^verbatim>\<open>isValidChain\<close>:
  \<^verbatim>\<open>for (let i = 1; i < chain.length; i++)\<close> with its two early \<^verbatim>\<open>return false\<close>; \<open>i\<close> is
  the loop variable. The array's elements are block objects or \<^verbatim>\<open>null\<close>; reading
  \<^verbatim>\<open>block.previousHash\<close> or \<^verbatim>\<open>previousBlock.hash\<close> of a \<^verbatim>\<open>null\<close> element throws a
  \<^verbatim>\<open>TypeError\<close>.\<close>

function validFrom :: "block option list \<Rightarrow> nat \<Rightarrow> error + bool" where
  "validFrom c i =
     (if i < length c then
        (case (c ! i, c ! (i - 1)) of
           (None, _) \<Rightarrow> Inl TypeError
         | (Some blk, None) \<Rightarrow> Inl TypeError
         | (Some blk, Some previousBlock) \<Rightarrow>
             if previousHash blk \<noteq> hash previousBlock then Inr False
             else if \<not> isValidBlockStructure blk then Inr False
             else validFrom c (Suc i))
      else Inr True)"
  by pat_completeness auto
termination
  by (relation "measure (\<lambda>(c, i). length c - i)") auto

declare validFrom.simps [simp del]

definition isChainValid :: "blockchain \<Rightarrow> error + bool" where
  "isChainValid s = validFrom (map Some (chain s)) 1"

text \<open>\<^verbatim>\<open>isValidChain(chain)\<close>: the texts of the two first blocks are compared, then the
  loop runs.\<close>

definition isValidChain ::
  "(transaction \<Rightarrow> string) \<Rightarrow> blockchain \<Rightarrow> block option list \<Rightarrow> error + bool"
where
  "isValidChain stringify s c =
     (if firstJson stringify c \<noteq> firstJson stringify (map Some (chain s))
      then Inr False
      else validFrom c 1)"

text \<open>The loop of \<^verbatim>\<open>reprocessPendingTransactions\<close>: \<^verbatim>\<open>addTransaction\<close> on each element; a
  throw leaves the loop.\<close>

fun addAll :: "blockchain \<Rightarrow> transaction list \<Rightarrow> (error + unit) \<times> blockchain" where
  "addAll s [] = (Inr (), s)"
| "addAll s (tx # txs) =
     (case addTransaction s tx of
        (Inl e, s') \<Rightarrow> (Inl e, s')
      | (Inr _, s') \<Rightarrow> addAll s' txs)"

definition reprocessPendingTransactions :: "blockchain \<Rightarrow> (error + unit) \<times> blockchain" where
  "reprocessPendingTransactions s =
     (let pending = currentTransactions s in
      addAll (s\<lparr>currentTransactions := []\<rparr>) pending)"

text \<open>\<^verbatim>\<open>replaceChain(newChain)\<close> for an array whose elements are block objects or \<^verbatim>\<open>null\<close>.
  A candidate that \<^verbatim>\<open>isValidChain\<close> accepts has no \<^verbatim>\<open>null\<close> element: its blocks become the
  chain.\<close>

definition replaceChain ::
  "(transaction \<Rightarrow> string) \<Rightarrow> blockchain \<Rightarrow> block option list \<Rightarrow> (error + bool) \<times> blockchain"
where
  "replaceChain stringify s newChain =
     (if length newChain \<le> length (chain s) then (Inr False, s)
      else
        (case isValidChain stringify s newChain of
           Inl e \<Rightarrow> (Inl e, s)
         | Inr False \<Rightarrow> (Inr False, s)
         | Inr True \<Rightarrow>
             (case reprocessPendingTransactions
                     (s\<lparr>chain := List.map_filter (\<lambda>element. element) newChain\<rparr>) of
                (Inl e, s') \<Rightarrow> (Inl e, s')
              | (Inr _, s') \<Rightarrow> (Inr True, s'))))"

subsection \<open>DPoSConsensus (src/consensus/dpos.js)\<close>

type_synonym address = string

text \<open>The fields of \<^verbatim>\<open>DPoSConsensus\<close>; \<open>dposBlockTime\<close> is its \<^verbatim>\<open>blockTime\<close> (seconds).
  \<^verbatim>\<open>votes\<close> is a JavaScript \<^verbatim>\<open>Map\<close>, which iterates in insertion order: an association
  list. \<^verbatim>\<open>Map.set\<close> on a present key keeps its position and on a new key appends
  (\<open>AList.update\<close>); \<^verbatim>\<open>Map.delete\<close> removes the entry (\<open>AList.delete\<close>).\<close>

record consensus =
  delegateCount :: nat
  dposBlockTime :: nat
  epochLength :: nat
  activeDelegates :: "address list"
  standbyDelegates :: "address list"
  votes :: "(address \<times> int) list"
  delegateSchedule :: "address list"
  currentProducer :: nat
  lastBlockTime :: int

text \<open>\<^verbatim>\<open>options.x || d\<close> for an optional number.\<close>

definition orDefault :: "nat option \<Rightarrow> nat \<Rightarrow> nat" where
  "orDefault x d = (case x of None \<Rightarrow> d | Some n \<Rightarrow> if n = 0 then d else n)"

definition newConsensus :: "nat option \<Rightarrow> nat option \<Rightarrow> nat option \<Rightarrow> consensus" where
  "newConsensus optDelegateCount optBlockTime optEpochLength =
     \<lparr> delegateCount = orDefault optDelegateCount 21,
       dposBlockTime = orDefault optBlockTime 3,
       epochLength = orDefault optEpochLength 10080,
       activeDelegates = [], standbyDelegates = [], votes = [],
       delegateSchedule = [], currentProducer = 0, lastBlockTime = 0 \<rparr>"

text \<open>\<^verbatim>\<open>this.votes.get(delegate) || 0\<close>.\<close>

definition stakeOf :: "(address \<times> int) list \<Rightarrow> address \<Rightarrow> int" where
  "stakeOf ledger delegate = (case map_of ledger delegate of None \<Rightarrow> 0 | Some v \<Rightarrow> v)"

text \<open>\<^verbatim>\<open>registerVote(voter, delegate, stake)\<close>.\<close>

definition registerVote :: "consensus \<Rightarrow> address \<Rightarrow> address \<Rightarrow> int \<Rightarrow> consensus" where
  "registerVote s voter delegate stake =
     (let currentStake = stakeOf (votes s) delegate in
      s\<lparr>votes := AList.update delegate (currentStake + stake) (votes s)\<rparr>)"

text \<open>\<^verbatim>\<open>removeVote(voter, delegate, stake)\<close>.\<close>

definition removeVote :: "consensus \<Rightarrow> address \<Rightarrow> address \<Rightarrow> int \<Rightarrow> consensus" where
  "removeVote s voter delegate stake =
     (let currentStake = stakeOf (votes s) delegate;
          newStake = max 0 (currentStake - stake)
      in if newStake = 0 then s\<lparr>votes := AList.delete delegate (votes s)\<rparr>
         else s\<lparr>votes := AList.update delegate newStake (votes s)\<rparr>)"

text \<open>\<^verbatim>\<open>registerDelegate(candidateAddress, candidateInfo, selfStake)\<close>; the candidate's
  info is not read.\<close>

definition registerDelegate :: "consensus \<Rightarrow> address \<Rightarrow> int \<Rightarrow> bool \<times> consensus" where
  "registerDelegate s candidateAddress selfStake =
     (if selfStake < 10000 then (False, s)
      else (True, registerVote s candidateAddress candidateAddress selfStake))"

text \<open>A sequence of vote operations applied in order.\<close>

datatype voteOp = RegisterVote address address int | RemoveVote address address int

fun applyVoteOp :: "consensus \<Rightarrow> voteOp \<Rightarrow> consensus" where
  "applyVoteOp s (RegisterVote voter delegate stake) = registerVote s voter delegate stake"
| "applyVoteOp s (RemoveVote voter delegate stake) = removeVote s voter delegate stake"

definition applyVoteOps :: "consensus \<Rightarrow> voteOp list \<Rightarrow> consensus" where
  "applyVoteOps s ops = foldl applyVoteOp s ops"

text \<open>\<^verbatim>\<open>Date.now().toString()\<close>: the decimal digits of a non-negative integer.\<close>

fun toString :: "nat \<Rightarrow> string" where
  "toString n =
     (if n < 10 then [''0123456789'' ! n]
      else toString (n div 10) @ [''0123456789'' ! (n mod 10)])"

declare toString.simps [simp del]

text \<open>\<^verbatim>\<open>parseInt(seed.substring(k, k + 8), 16)\<close> for a seed that is the 64 hexadecimal
  digits of a 256-bit digest and \<open>k \<le> 56\<close>: the number the digits \<open>k\<close> to \<open>k + 7\<close> spell,
  the most significant digit first.\<close>

definition seedWindow :: "256 word \<Rightarrow> nat \<Rightarrow> nat" where
  "seedWindow seed k = (unat seed div 16 ^ (56 - k)) mod 16 ^ 8"

text \<open>The Fisher-Yates loop of \<^verbatim>\<open>shuffleDelegates\<close>:
  \<^verbatim>\<open>for (let i = delegates.length - 1; i > 0; i--)\<close>, swapping positions \<open>i\<close> and \<open>j\<close>. The
  second argument is the loop variable.\<close>

fun shuffleLoop :: "256 word \<Rightarrow> nat \<Rightarrow> 'a list \<Rightarrow> 'a list" where
  "shuffleLoop seed 0 delegates = delegates"
| "shuffleLoop seed (Suc k) delegates =
     (let i = Suc k;
          j = seedWindow seed (i mod 32) mod (i + 1)
      in shuffleLoop seed k (delegates[i := delegates ! j, j := delegates ! i]))"

text \<open>\<^verbatim>\<open>shuffleDelegates(delegates)\<close>. The seed is the SHA-256 digest of the wall clock's
  reading: \<open>sha256\<close> is \<^verbatim>\<open>crypto.createHash('sha256')\<close> of the runtime, a parameter, and
  \<open>now\<close> the value \<^verbatim>\<open>Date.now()\<close> returns during the call.\<close>

definition shuffleDelegates :: "(string \<Rightarrow> 256 word) \<Rightarrow> nat \<Rightarrow> 'a list \<Rightarrow> 'a list" where
  "shuffleDelegates sha256 now delegates =
     (let seed = sha256 (toString now) in
      shuffleLoop seed (length delegates - 1) delegates)"

text \<open>\<^verbatim>\<open>createDelegateSchedule\<close>.\<close>

definition createDelegateSchedule :: "(string \<Rightarrow> 256 word) \<Rightarrow> nat \<Rightarrow> consensus \<Rightarrow> consensus" where
  "createDelegateSchedule sha256 now s =
     s\<lparr>delegateSchedule := shuffleDelegates sha256 now (activeDelegates s),
       currentProducer := 0\<rparr>"

text \<open>\<^verbatim>\<open>Array.from(this.votes.entries()).sort((a, b) => b[1] - a[1])\<close>: the entries in
  descending order of stake. \<^verbatim>\<open>Array.prototype.sort\<close> is stable, and so is \<open>sort_key\<close>.\<close>

definition sortedEntries :: "(address \<times> int) list \<Rightarrow> (address \<times> int) list" where
  "sortedEntries ledger = sort_key (\<lambda>entry. - snd entry) ledger"

text \<open>\<^verbatim>\<open>updateDelegates\<close>.\<close>

definition updateDelegates :: "(string \<Rightarrow> 256 word) \<Rightarrow> nat \<Rightarrow> consensus \<Rightarrow> consensus" where
  "updateDelegates sha256 now s =
     (let sortedDelegates = map fst (sortedEntries (votes s)) in
      createDelegateSchedule sha256 now
        (s\<lparr>activeDelegates := take (delegateCount s) sortedDelegates,
           standbyDelegates := drop (delegateCount s) sortedDelegates\<rparr>))"

text \<open>\<^verbatim>\<open>isAuthorized(validator, timestamp)\<close>: its first statement is \<^verbatim>\<open>return true\<close>.\<close>

definition isAuthorized :: "consensus \<Rightarrow> address \<Rightarrow> int \<Rightarrow> bool" where
  "isAuthorized s validatorId ts = True"

text \<open>The statements of \<^verbatim>\<open>isAuthorized\<close> after its \<^verbatim>\<open>return true\<close> (lines 159 to 168), which
  never run. \<open>expectedProducer\<close> is the schedule's entry at
  \<^verbatim>\<open>(currentProducer + currentSlot) % delegateSchedule.length\<close>, with
  \<^verbatim>\<open>currentSlot = Math.floor((timestamp - lastBlockTime) / (blockTime * 1000))\<close>;
  it is \<^verbatim>\<open>undefined\<close> when the schedule is empty, the slot length is zero or the
  remainder is negative.\<close>

definition expectedProducer :: "consensus \<Rightarrow> int \<Rightarrow> address option" where
  "expectedProducer s ts =
     (let slotLength = int (dposBlockTime s) * 1000 in
      if slotLength = 0 \<or> delegateSchedule s = [] then None
      else
        (let currentSlot = (ts - lastBlockTime s) div slotLength;
             position = int (currentProducer s) + currentSlot
         in if position < 0 \<and> \<not> int (length (delegateSchedule s)) dvd position then None
            else elemAt (delegateSchedule s) (nat (position mod int (length (delegateSchedule s))))))"

definition isAuthorizedUnreachable :: "consensus \<Rightarrow> address \<Rightarrow> int \<Rightarrow> bool" where
  "isAuthorizedUnreachable s validatorId ts =
     (if validatorId \<notin> set (activeDelegates s) then False
      else Some validatorId = expectedProducer s ts)"

subsection \<open>Example data\<close>

text \<open>A transaction that passes the guard of \<^verbatim>\<open>addTransaction\<close>, and the chain a node
  holds after its constructor ran at clock reading 1700000000000.\<close>

definition exTx :: transaction where
  "exTx = \<lparr> sender = Some ''alice'', recipient = Some ''bob'', amount = Some 5,
            fee = Some (1 / 1000), txTimestamp = Some 1700000000000,
            txSignature = Some ''sig'', txHash = Some ''h1'' \<rparr>"

definition exNode :: blockchain where
  "exNode = newBlockchain 1700000000000"

text \<open>A block as \<^verbatim>\<open>createBlock\<close> returns it (index 0, hash and signature added last),
  holding \<open>exTx\<close> and pointing at the genesis block's hash; a node with \<open>exTx\<close> pending; a
  two-block candidate chain; the same candidate with index 7 on its second block.\<close>

definition exBlock :: block where
  "exBlock =
     [Index (Value (Num 0)), Timestamp (Value (Num 1700000003000)),
      Transactions (Value [Some exTx]), PreviousHash (Value (replicate 64 CHR ''0'')),
      Validator (Value ''alice''), Difficulty (Value (Num 1)),
      Hash (Value ''b1''), Signature (Value ''s1'')]"

definition exPending :: blockchain where
  "exPending = exNode\<lparr>currentTransactions := [exTx]\<rparr>"

definition exCandidate :: "block list" where
  "exCandidate = [genesisBlock 1700000000000 4, setIndex (Value (Num 1)) exBlock]"


text \<open>A block with a hash only; the same block with an empty transactions array; and a
  block that passes \<^verbatim>\<open>isValidBlockStructure\<close> while its transactions array holds
  \<^verbatim>\<open>null\<close>.\<close>

definition exBareBlock :: block where
  "exBareBlock = [Hash (Value ''b2'')]"

definition exLooseBlock :: block where
  "exLooseBlock = [Hash (Value ''b2''), Transactions (Value [])]"

definition exNullTxBlock :: block where
  "exNullTxBlock =
     [Index (Value (Num 0)), Timestamp (Value (Num 1700000003000)),
      Transactions (Value [None]), PreviousHash (Value (replicate 64 CHR ''0'')),
      Validator (Value ''alice''), Difficulty (Value (Num 1)),
      Hash (Value ''b3''), Signature (Value ''s3'')]"

text \<open>The genesis block of \<open>exNode\<close> with its index written last instead of first; a genesis
  block created one millisecond later; and a block whose index and timestamp are \<^verbatim>\<open>NaN\<close>,
  whose transactions property holds \<^verbatim>\<open>null\<close> and whose hash is not a digest.\<close>

definition exReorderedGenesis :: block where
  "exReorderedGenesis =
     [Timestamp (Value (Num 1700000000000)), Transactions (Value []),
      PreviousHash (Value (replicate 64 CHR ''0'')), Hash (Value (replicate 64 CHR ''0'')),
      Validator (Value ''MyCoin Genesis''), Signature (Value (replicate 128 CHR ''0'')),
      Difficulty (Value (Num 4)), Nonce (Value (Num 0)), Index (Value (Num 0))]"

definition exOtherGenesis :: block where
  "exOtherGenesis = genesisBlock 1700000000001 4"

definition exOddBlock :: block where
  "exOddBlock =
     [Index (Value NaN), Timestamp (Value NaN), Transactions Null,
      PreviousHash (Value (replicate 64 CHR ''0'')), Hash (Value ''zz''),
      Validator (Value [])]"

subsection \<open>Invariants of a node\<close>

text \<open>Every pending transaction passed the guard of \<^verbatim>\<open>addTransaction\<close>: the pool is
  written by \<^verbatim>\<open>addTransaction\<close>, \<^verbatim>\<open>addBlock\<close> (a filter) and
  \<^verbatim>\<open>reprocessPendingTransactions\<close> only.\<close>

definition poolAdmitted :: "blockchain \<Rightarrow> bool" where
  "poolAdmitted s = list_all (\<lambda>tx. \<not> rejectedAtSubmission tx) (currentTransactions s)"

text \<open>A property is omitted from the JSON text when it holds \<^verbatim>\<open>undefined\<close>. A property is
  plain when it holds \<^verbatim>\<open>undefined\<close>, a number other than \<^verbatim>\<open>NaN\<close>, a string or the empty array,
  as the properties of the constructor's genesis block do; the first block of a node's
  chain is plain after the constructor, and every method keeps it plain.\<close>

fun omitted :: "property \<Rightarrow> bool" where
  "omitted (Index v) = (v = Undefined)"
| "omitted (Timestamp v) = (v = Undefined)"
| "omitted (Transactions v) = (v = Undefined)"
| "omitted (PreviousHash v) = (v = Undefined)"
| "omitted (Hash v) = (v = Undefined)"
| "omitted (Validator v) = (v = Undefined)"
| "omitted (Signature v) = (v = Undefined)"
| "omitted (Difficulty v) = (v = Undefined)"
| "omitted (Nonce v) = (v = Undefined)"

definition definedProperties :: "block \<Rightarrow> block" where
  "definedProperties b = filter (\<lambda>p. \<not> omitted p) b"

definition plainNumber :: "jsnumber js \<Rightarrow> bool" where
  "plainNumber v = (v \<noteq> Null \<and> v \<noteq> Value NaN)"

definition plainString :: "string js \<Rightarrow> bool" where
  "plainString v = (v \<noteq> Null)"

definition plainArray :: "transaction option list js \<Rightarrow> bool" where
  "plainArray v = (v = Undefined \<or> v = Value [])"

fun plainProperty :: "property \<Rightarrow> bool" where
  "plainProperty (Index v) = plainNumber v"
| "plainProperty (Timestamp v) = plainNumber v"
| "plainProperty (Transactions v) = plainArray v"
| "plainProperty (PreviousHash v) = plainString v"
| "plainProperty (Hash v) = plainString v"
| "plainProperty (Validator v) = plainString v"
| "plainProperty (Signature v) = plainString v"
| "plainProperty (Difficulty v) = plainNumber v"
| "plainProperty (Nonce v) = plainNumber v"

definition plainGenesis :: "blockchain \<Rightarrow> bool" where
  "plainGenesis s = (chain s \<noteq> [] \<and> list_all plainProperty (chain s ! 0))"

subsection \<open>Invariant of the vote ledger\<close>

text \<open>An operation whose stake keeps the ledger positive: a \<^verbatim>\<open>registerVote\<close> with a
  stake above zero, any \<^verbatim>\<open>removeVote\<close>. A ledger is positive when every stored stake is
  above zero.\<close>

fun positiveStake :: "voteOp \<Rightarrow> bool" where
  "positiveStake (RegisterVote voter delegate stake) = (0 < stake)"
| "positiveStake (RemoveVote voter delegate stake) = True"

definition ledgerPositive :: "(address \<times> int) list \<Rightarrow> bool" where
  "ledgerPositive ledger = list_all (\<lambda>entry. 0 < snd entry) ledger"

text \<open>Two votes registered, one reduced and one withdrawn in full.\<close>

definition exVotes :: "voteOp list" where
  "exVotes = [RegisterVote ''v1'' ''A'' 20000, RegisterVote ''v2'' ''B'' 15000,
              RemoveVote ''v2'' ''B'' 5000, RemoveVote ''v1'' ''A'' 20000]"

subsection \<open>Example elections\<close>

text \<open>A consensus object with one producer slot and the votes of the specification's
  example; two objects whose ledgers hold the same two equal stakes, registered in
  opposite orders; and the first object after \<^verbatim>\<open>updateDelegates\<close>.\<close>

definition exElection :: consensus where
  "exElection =
     registerVote (registerVote (newConsensus (Some 1) None None) ''v1'' ''A'' 20000)
       ''v2'' ''B'' 15000"

definition exTieBA :: consensus where
  "exTieBA =
     registerVote (registerVote (newConsensus (Some 1) None None) ''v2'' ''B'' 100)
       ''v1'' ''A'' 100"

definition exTieAB :: consensus where
  "exTieAB =
     registerVote (registerVote (newConsensus (Some 1) None None) ''v1'' ''A'' 100)
       ''v2'' ''B'' 100"

definition exElected :: "(string \<Rightarrow> 256 word) \<Rightarrow> nat \<Rightarrow> consensus" where
  "exElected sha256 now = updateDelegates sha256 now exElection"

text \<open>A consensus object with the default 21 slots and the same two votes; and a digest
  function that exhibits both outcomes of the shuffle: its digest of the text \<open>1\<close> is
  zero, its digest of any other text has the hexadecimal digit 1 at position 8 and zeros
  elsewhere.\<close>

definition exLedger :: consensus where
  "exLedger =
     registerVote (registerVote (newConsensus None None None) ''v1'' ''A'' 20000)
       ''v2'' ''B'' 15000"

definition exDigest :: "string \<Rightarrow> 256 word" where
  "exDigest s = (if s = ''1'' then 0 else of_nat (16 ^ 55))"

section \<open>Verified properties\<close>

subsection \<open>Operators\<close>

lemma falsy_iff: "falsy x \<longleftrightarrow> x = None \<or> x = Some []"
  by (simp add: falsy_def split: option.splits)

lemma leZero_iff: "leZero x \<longleftrightarrow> (\<exists>r. x = Some r \<and> r \<le> 0)"
  by (simp add: leZero_def split: option.splits)

lemma exNode_chain: "chain exNode = [genesisBlock 1700000000000 4]"
  by (simp add: exNode_def newBlockchain_def)

subsection \<open>Submitting a transaction\<close>

text \<open>
  C9. On a node whose chain holds its genesis block, \<^verbatim>\<open>addTransaction\<close> throws
  "Invalid transaction" exactly when the sender is missing, the recipient is missing, or
  the amount is a number \<open>\<le> 0\<close>. Missing is what \<^verbatim>\<open>!x\<close> tests: the property is absent or
  the empty string. When it throws, the node is unchanged; otherwise the call returns
  and the node differs from the old one only by the transaction appended to the pending
  pool.
\<close>

theorem addTransaction_rejects_iff:
  assumes "chain s \<noteq> []"
  shows "(fst (addTransaction s tx) = Inl InvalidTransaction \<longleftrightarrow>
            (sender tx = None \<or> sender tx = Some []) \<or>
            (recipient tx = None \<or> recipient tx = Some []) \<or>
            (\<exists>r. amount tx = Some r \<and> r \<le> 0))
       \<and> (fst (addTransaction s tx) = Inl InvalidTransaction \<longrightarrow> snd (addTransaction s tx) = s)
       \<and> (fst (addTransaction s tx) \<noteq> Inl InvalidTransaction \<longrightarrow>
            (\<exists>n. fst (addTransaction s tx) = Inr n) \<and>
            snd (addTransaction s tx) = s\<lparr>currentTransactions := currentTransactions s @ [tx]\<rparr>)"
  using assms
  by (auto simp: addTransaction_def rejectedAtSubmission_def getLatestBlock_def Let_def
        falsy_iff leZero_iff)

theorem addTransaction_rejects_iff_witness:
  "chain exNode \<noteq> [] \<and>
   fst (addTransaction exNode exTx) = Inr (Num 1) \<and>
   snd (addTransaction exNode exTx) = exNode\<lparr>currentTransactions := [exTx]\<rparr> \<and>
   addTransaction exNode (exTx\<lparr>amount := Some 0\<rparr>) = (Inl InvalidTransaction, exNode) \<and>
   addTransaction exNode (exTx\<lparr>sender := None\<rparr>) = (Inl InvalidTransaction, exNode)"
proof -
  have ne: "chain exNode \<noteq> []"
    by (simp add: exNode_chain)
  note t = addTransaction_rejects_iff [OF ne]
  have pool: "currentTransactions exNode = []"
    by (simp add: exNode_def newBlockchain_def)
  have ok: "fst (addTransaction exNode exTx) \<noteq> Inl InvalidTransaction"
    using t [of exTx] by (simp add: exTx_def)
  have r1: "fst (addTransaction exNode exTx) = Inr (Num 1)"
    using ok
    by (simp add: addTransaction_def rejectedAtSubmission_def getLatestBlock_def Let_def
        exNode_chain genesisBlock_def toNumber_def split: if_splits)
  have r2: "snd (addTransaction exNode exTx) = exNode\<lparr>currentTransactions := [exTx]\<rparr>"
    using t [of exTx] ok pool by simp
  have r3: "addTransaction exNode (exTx\<lparr>amount := Some 0\<rparr>) = (Inl InvalidTransaction, exNode)"
    using t [of "exTx\<lparr>amount := Some 0\<rparr>"] by (simp add: prod_eq_iff)
  have r4: "addTransaction exNode (exTx\<lparr>sender := None\<rparr>) = (Inl InvalidTransaction, exNode)"
    using t [of "exTx\<lparr>sender := None\<rparr>"] by (simp add: prod_eq_iff)
  show ?thesis
    using ne r1 r2 r3 r4 by simp
qed

subsection \<open>Block reward\<close>

lemma floor_halvings: "nat \<lfloor>(of_nat a :: rat) / of_nat b\<rfloor> = a div b"
  by (simp add: floor_divide_of_nat_eq)

text \<open>
  C6. With a positive halving interval, \<^verbatim>\<open>getCurrentBlockReward\<close> is
  \<open>blockReward / 2 ^ min (height div halvingInterval) 64\<close>, where the height is the
  chain's length; at height \<open>halvingInterval * k\<close> it is \<open>blockReward / 2 ^ min k 64\<close>.
  Numbers are exact rationals here; the constructor's reward 50 divided by a power of two
  up to \<open>2 ^ 64\<close> is exact in double precision as well.
\<close>

theorem getCurrentBlockReward_halving:
  assumes "0 < halvingInterval s"
  shows "getCurrentBlockReward s =
           Some (blockReward s / 2 ^ min (length (chain s) div halvingInterval s) 64)
       \<and> (\<forall>k. length (chain s) = halvingInterval s * k \<longrightarrow>
             getCurrentBlockReward s = Some (blockReward s / 2 ^ min k 64))"
  using assms by (auto simp: getCurrentBlockReward_def Let_def floor_halvings)

theorem getCurrentBlockReward_halving_witness:
  "0 < halvingInterval exNode \<and>
   getCurrentBlockReward exNode = Some 50 \<and>
   getCurrentBlockReward
     (exNode\<lparr>chain := replicate (840000 * 3) (genesisBlock 1700000000000 4)\<rparr>) = Some (25 / 4)"
proof -
  let ?tall = "exNode\<lparr>chain := replicate (840000 * 3) (genesisBlock 1700000000000 4)\<rparr>"
  have hi: "halvingInterval exNode = 840000" "halvingInterval ?tall = 840000"
    and br: "blockReward exNode = 50" "blockReward ?tall = 50"
    by (simp_all add: exNode_def newBlockchain_def)
  have pos: "0 < halvingInterval exNode" "0 < halvingInterval ?tall"
    using hi by simp_all
  have len: "length (chain ?tall) = halvingInterval ?tall * 3"
    using hi by simp
  have r1: "getCurrentBlockReward exNode = Some 50"
    using getCurrentBlockReward_halving [OF pos(1)] hi(1) br(1) by (simp add: exNode_chain)
  have "getCurrentBlockReward ?tall = Some (blockReward ?tall / 2 ^ min 3 64)"
    using getCurrentBlockReward_halving [OF pos(2)] len by blast
  then have r2: "getCurrentBlockReward ?tall = Some (25 / 4)"
    using br(2) by simp
  show ?thesis
    using pos(1) r1 r2 by simp
qed

subsection \<open>Properties of a block\<close>

lemma setIndex_reads [simp]:
  "index (setIndex v b) = v"
  "timestamp (setIndex v b) = timestamp b"
  "transactions (setIndex v b) = transactions b"
  "previousHash (setIndex v b) = previousHash b"
  "hash (setIndex v b) = hash b"
  "validator (setIndex v b) = validator b"
  by (induction v b rule: setIndex.induct) simp_all

lemma setPreviousHash_reads [simp]:
  "previousHash (setPreviousHash v b) = v"
  "index (setPreviousHash v b) = index b"
  "timestamp (setPreviousHash v b) = timestamp b"
  "transactions (setPreviousHash v b) = transactions b"
  "hash (setPreviousHash v b) = hash b"
  "validator (setPreviousHash v b) = validator b"
  by (induction v b rule: setPreviousHash.induct) simp_all

lemma txKeys_objects: "txKeys stringify (map Some txs) = Some (map (txKey stringify) txs)"
  by (induction txs) simp_all

lemma txKeys_null: "txKeys stringify txs = None \<longleftrightarrow> None \<in> set txs"
  by (induction stringify txs rule: txKeys.induct) auto

lemma no_null_objects: "None \<notin> set txs \<longleftrightarrow> (\<exists>ts. txs = map Some ts)"
proof
  assume "None \<notin> set txs"
  then have "txs = map Some (map the txs)"
    by (induction txs) auto
  then show "\<exists>ts. txs = map Some ts" ..
next
  assume "\<exists>ts. txs = map Some ts"
  then show "None \<notin> set txs" by auto
qed

subsection \<open>JSON texts\<close>

lemma valueJson_None [simp]: "valueJson f v = None \<longleftrightarrow> v = Undefined"
  by (cases v) simp_all

lemma propertyJson_omitted: "propertyJson stringify p = None \<longleftrightarrow> omitted p"
  by (cases p) simp_all

lemma propertyJson_plain_inj:
  assumes "plainProperty q" "\<not> omitted q" "propertyJson stringify p = propertyJson stringify q"
  shows "p = q"
proof -
  have nj: "\<And>n m. m \<noteq> NaN \<Longrightarrow> numberJson n = numberJson m \<Longrightarrow> n = m"
    subgoal for n m
      by (cases n; cases m) simp_all
    done
  have nn: "\<And>m. m \<noteq> NaN \<Longrightarrow> JNull \<noteq> numberJson m"
    subgoal for m
      by (cases m) simp_all
    done
  have num: "\<And>v w. plainNumber w \<Longrightarrow> w \<noteq> Undefined \<Longrightarrow>
      valueJson numberJson v = valueJson numberJson w \<Longrightarrow> v = w"
    subgoal for v w
      using nj nn by (cases v; cases w) (auto simp: plainNumber_def)
    done
  have str: "\<And>v w. plainString w \<Longrightarrow> w \<noteq> Undefined \<Longrightarrow>
      valueJson JString v = valueJson JString w \<Longrightarrow> v = w"
    subgoal for v w
      by (cases v; cases w) (auto simp: plainString_def)
    done
  have arr: "\<And>v w. plainArray w \<Longrightarrow> w \<noteq> Undefined \<Longrightarrow>
      valueJson (\<lambda>xs. JArray (map (elementJson stringify) xs)) v
        = valueJson (\<lambda>xs. JArray (map (elementJson stringify) xs)) w \<Longrightarrow> v = w"
    subgoal for v w
      by (cases v; cases w) (auto simp: plainArray_def)
    done
  show ?thesis
    using assms num str arr
    by (cases p; cases q) (auto simp: map_option_case split: option.splits)
qed

lemma map_filter_propertyJson:
  "List.map_filter (propertyJson stringify) b
     = map (\<lambda>p. the (propertyJson stringify p)) (definedProperties b)"
proof (induction b)
  case Nil
  then show ?case by (simp add: List.map_filter_simps definedProperties_def)
next
  case (Cons p b)
  show ?case
  proof (cases "omitted p")
    case True
    then have "propertyJson stringify p = None" by (simp add: propertyJson_omitted)
    with True Cons show ?thesis
      by (simp add: List.map_filter_simps definedProperties_def)
  next
    case False
    then obtain x where "propertyJson stringify p = Some x"
      using propertyJson_omitted [of stringify p] by auto
    with False Cons show ?thesis
      by (simp add: List.map_filter_simps definedProperties_def)
  qed
qed

lemma plain_texts_inj:
  assumes "list_all plainProperty ys" "list_all (\<lambda>p. \<not> omitted p) ys"
    and "list_all (\<lambda>p. \<not> omitted p) xs"
    and "map (\<lambda>p. the (propertyJson stringify p)) xs = map (\<lambda>p. the (propertyJson stringify p)) ys"
  shows "xs = ys"
  using assms
proof (induction ys arbitrary: xs)
  case Nil
  then show ?case by simp
next
  case (Cons y ys)
  then obtain x xs' where xs: "xs = x # xs'"
    by (cases xs) auto
  have "propertyJson stringify x \<noteq> None" "propertyJson stringify y \<noteq> None"
    using Cons.prems xs by (simp_all add: propertyJson_omitted)
  moreover have "the (propertyJson stringify x) = the (propertyJson stringify y)"
    using Cons.prems xs by simp
  ultimately have "propertyJson stringify x = propertyJson stringify y"
    by (metis option.expand)
  then have "x = y"
    using Cons.prems by (intro propertyJson_plain_inj [of y stringify x]) simp_all
  moreover have "xs' = ys"
    using Cons.prems xs by (intro Cons.IH) simp_all
  ultimately show ?case using xs by simp
qed

lemma blockJson_eq_iff:
  assumes "list_all plainProperty g"
  shows "blockJson stringify b = blockJson stringify g
           \<longleftrightarrow> definedProperties b = definedProperties g"
proof
  assume "definedProperties b = definedProperties g"
  then show "blockJson stringify b = blockJson stringify g"
    by (simp add: blockJson_def map_filter_propertyJson)
next
  assume "blockJson stringify b = blockJson stringify g"
  then have eq: "map (\<lambda>p. the (propertyJson stringify p)) (definedProperties b)
      = map (\<lambda>p. the (propertyJson stringify p)) (definedProperties g)"
    by (simp add: blockJson_def map_filter_propertyJson)
  have "list_all plainProperty (definedProperties g)"
    using assms by (simp add: definedProperties_def list_all_iff)
  moreover have "list_all (\<lambda>p. \<not> omitted p) (definedProperties g)"
    "list_all (\<lambda>p. \<not> omitted p) (definedProperties b)"
    by (simp_all add: definedProperties_def list_all_iff)
  ultimately show "definedProperties b = definedProperties g"
    using eq by (intro plain_texts_inj)
qed

subsection \<open>Chain validation and pool bookkeeping\<close>

lemma validFrom_blocks:
  "validFrom (map Some c) i =
     Inr (\<forall>k. i \<le> k \<and> k < length c \<longrightarrow>
            previousHash (c ! k) = hash (c ! (k - 1)) \<and> isValidBlockStructure (c ! k))"
proof (induction "length c - i" arbitrary: i)
  case 0
  then have "\<not> i < length c" by simp
  then show ?case by (subst validFrom.simps) auto
next
  case (Suc n)
  then have lt: "i < length c" by simp
  then have prev: "i - 1 < length c" by simp
  show ?case
  proof (cases "previousHash (c ! i) = hash (c ! (i - 1)) \<and> isValidBlockStructure (c ! i)")
    case False
    with lt prev show ?thesis by (subst validFrom.simps) auto
  next
    case ok: True
    have "n = length c - Suc i" using Suc.hyps(2) by simp
    then have ih: "validFrom (map Some c) (Suc i) =
        Inr (\<forall>k. Suc i \<le> k \<and> k < length c \<longrightarrow>
               previousHash (c ! k) = hash (c ! (k - 1)) \<and> isValidBlockStructure (c ! k))"
      by (rule Suc.hyps(1))
    have "validFrom (map Some c) i = validFrom (map Some c) (Suc i)"
      using lt prev ok by (subst validFrom.simps) simp
    moreover have "(\<forall>k. Suc i \<le> k \<and> k < length c \<longrightarrow>
          previousHash (c ! k) = hash (c ! (k - 1)) \<and> isValidBlockStructure (c ! k))
        = (\<forall>k. i \<le> k \<and> k < length c \<longrightarrow>
          previousHash (c ! k) = hash (c ! (k - 1)) \<and> isValidBlockStructure (c ! k))"
      using ok by (metis Suc_leD le_antisym not_less_eq_eq)
    ultimately show ?thesis using ih by simp
  qed
qed

lemma isChainValid_iff:
  "isChainValid s =
     Inr (\<forall>i. 1 \<le> i \<and> i < length (chain s) \<longrightarrow>
            previousHash (chain s ! i) = hash (chain s ! (i - 1)) \<and>
            isValidBlockStructure (chain s ! i))"
  by (simp add: isChainValid_def validFrom_blocks)

lemma newBlockchain_valid: "isChainValid (newBlockchain now) = Inr True"
  by (simp add: isChainValid_iff newBlockchain_def)

lemma adjustDifficulty_chain [simp]: "chain (adjustDifficulty s) = chain s"
  by (simp add: adjustDifficulty_def Let_def)

lemma adjustDifficulty_pool [simp]:
  "currentTransactions (adjustDifficulty s) = currentTransactions s"
  by (simp add: adjustDifficulty_def Let_def)

lemma addTransaction_accepts:
  assumes "\<not> rejectedAtSubmission tx" "chain s \<noteq> []"
  shows "addTransaction s tx =
    (Inr (jsPlus (toNumber (index (last (chain s)))) (Num 1)),
     s\<lparr>currentTransactions := currentTransactions s @ [tx]\<rparr>)"
  using assms by (simp add: addTransaction_def getLatestBlock_def Let_def)

lemma addAll_accepts:
  assumes "list_all (\<lambda>tx. \<not> rejectedAtSubmission tx) txs" "chain s \<noteq> []"
  shows "addAll s txs = (Inr (), s\<lparr>currentTransactions := currentTransactions s @ txs\<rparr>)"
  using assms
proof (induction txs arbitrary: s)
  case Nil
  then show ?case by simp
next
  case (Cons tx txs)
  then show ?case by (simp add: addTransaction_accepts)
qed

lemma map_filter_objects: "List.map_filter (\<lambda>element. element) (map Some c) = c"
  by (induction c) (simp_all add: List.map_filter_simps)

lemma firstJson_objects:
  "c \<noteq> [] \<Longrightarrow> firstJson stringify (map Some c) = Some (blockJson stringify (c ! 0))"
  by (cases c) (simp_all add: firstJson_def elemAt_def)

lemma replaceChain_cases:
  assumes "chain s \<noteq> []" "poolAdmitted s"
  shows "replaceChain stringify s (map Some c) =
     (if length (chain s) < length c
         \<and> blockJson stringify (c ! 0) = blockJson stringify (chain s ! 0)
         \<and> (\<forall>i. 1 \<le> i \<and> i < length c \<longrightarrow>
               previousHash (c ! i) = hash (c ! (i - 1)) \<and> isValidBlockStructure (c ! i))
      then (Inr True, s\<lparr>chain := c\<rparr>) else (Inr False, s))"
proof (cases "length (chain s) < length c")
  case False
  then show ?thesis by (simp add: replaceChain_def)
next
  case True
  then have ne: "c \<noteq> []" by auto
  have v: "isValidChain stringify s (map Some c) =
      Inr (blockJson stringify (c ! 0) = blockJson stringify (chain s ! 0)
         \<and> (\<forall>i. 1 \<le> i \<and> i < length c \<longrightarrow>
               previousHash (c ! i) = hash (c ! (i - 1)) \<and> isValidBlockStructure (c ! i)))"
    using ne assms(1) by (simp add: isValidChain_def firstJson_objects validFrom_blocks)
  have r: "reprocessPendingTransactions (s\<lparr>chain := c\<rparr>) = (Inr (), s\<lparr>chain := c\<rparr>)"
    using assms(2) ne by (simp add: reprocessPendingTransactions_def addAll_accepts poolAdmitted_def)
  show ?thesis
  proof (cases "blockJson stringify (c ! 0) = blockJson stringify (chain s ! 0)
         \<and> (\<forall>i. 1 \<le> i \<and> i < length c \<longrightarrow>
               previousHash (c ! i) = hash (c ! (i - 1)) \<and> isValidBlockStructure (c ! i))")
    case ok: True
    then have "isValidChain stringify s (map Some c) = Inr True"
      using v by simp
    then have rc: "replaceChain stringify s (map Some c) = (Inr True, s\<lparr>chain := c\<rparr>)"
      using True by (simp add: replaceChain_def r map_filter_objects)
    show ?thesis
      by (rule trans [OF rc if_P [symmetric]]) (intro conjI True conjunct1 [OF ok] conjunct2 [OF ok])
  next
    case no: False
    then have "isValidChain stringify s (map Some c) = Inr False"
      using v by simp
    then have rc: "replaceChain stringify s (map Some c) = (Inr False, s)"
      using True by (simp add: replaceChain_def)
    show ?thesis
      by (rule trans [OF rc if_not_P [symmetric]]) (use no in blast)
  qed
qed

subsection \<open>What \<^verbatim>\<open>addBlock\<close> returns\<close>

lemma stampBlock_reads [simp]:
  "index (stampBlock previousBlock n blk) = Value (Num (of_nat n))"
  "previousHash (stampBlock previousBlock n blk) = hash previousBlock"
  "timestamp (stampBlock previousBlock n blk) = timestamp blk"
  "transactions (stampBlock previousBlock n blk) = transactions blk"
  "hash (stampBlock previousBlock n blk) = hash blk"
  "validator (stampBlock previousBlock n blk) = validator blk"
  by (simp_all add: stampBlock_def Let_def)

lemma addBlock_returns:
  assumes "chain s \<noteq> []" "transactions blk = Value (map Some txs)"
  shows "addBlock stringify s blk v g =
     (Inr True,
      adjustDifficulty
        (s\<lparr>chain := chain s @ [stampBlock (last (chain s)) (length (chain s)) blk],
           currentTransactions :=
              filter (\<lambda>tx. txKey stringify tx \<notin> set (map (txKey stringify) txs))
                (currentTransactions s)\<rparr>))"
  using assms by (simp add: addBlock_def getLatestBlock_def Let_def txKeys_objects)

lemma addBlock_throws:
  assumes "chain s \<noteq> []" "\<not> (\<exists>txs. transactions blk = Value (map Some txs))"
  shows "addBlock stringify s blk v g =
     (Inl TypeError,
      s\<lparr>chain := chain s @ [stampBlock (last (chain s)) (length (chain s)) blk]\<rparr>)"
proof (cases "transactions blk")
  case (Value txs)
  then have "None \<in> set txs"
    using assms(2) no_null_objects [of txs] by auto
  then have "txKeys stringify txs = None"
    by (simp add: txKeys_null)
  with Value assms(1) show ?thesis
    by (simp add: addBlock_def getLatestBlock_def Let_def)
qed (use assms(1) in \<open>simp_all add: addBlock_def getLatestBlock_def Let_def\<close>)

text \<open>\<^verbatim>\<open>addBlock\<close> returns \<^verbatim>\<open>true\<close> exactly for a block whose transactions property holds an
  array of transaction objects, on a chain that is not empty.\<close>

lemma addBlock_accepts_iff:
  "fst (addBlock stringify s blk v g) = Inr True \<longleftrightarrow>
     chain s \<noteq> [] \<and> (\<exists>txs. transactions blk = Value (map Some txs))"
proof (cases "chain s = []")
  case True
  then show ?thesis by (simp add: addBlock_def getLatestBlock_def)
next
  case ne: False
  show ?thesis
  proof (cases "\<exists>txs. transactions blk = Value (map Some txs)")
    case True
    then obtain txs where "transactions blk = Value (map Some txs)" ..
    with ne show ?thesis by (auto simp: addBlock_returns)
  next
    case False
    with ne show ?thesis by (simp add: addBlock_throws)
  qed
qed

subsection \<open>Invariants\<close>

lemma omitted_plain: "omitted p \<Longrightarrow> plainProperty p"
  by (cases p) (simp_all add: plainNumber_def plainString_def plainArray_def)

lemma genesisBlock_plain: "list_all plainProperty (genesisBlock now d)"
  by (simp add: genesisBlock_def plainNumber_def plainString_def plainArray_def)

lemma same_text_plain:
  assumes "list_all plainProperty g" "definedProperties b = definedProperties g"
  shows "list_all plainProperty b"
proof -
  have "plainProperty p" if "p \<in> set b" for p
  proof (cases "omitted p")
    case True
    then show ?thesis by (rule omitted_plain)
  next
    case False
    with that have "p \<in> set (definedProperties b)"
      by (simp add: definedProperties_def)
    then have "p \<in> set (definedProperties g)"
      using assms(2) by simp
    then have "p \<in> set g"
      by (simp add: definedProperties_def)
    then show ?thesis
      using assms(1) by (simp add: list_all_iff)
  qed
  then show ?thesis by (simp add: list_all_iff)
qed

lemma validFrom_objects:
  "validFrom c i = Inr True \<Longrightarrow> i \<le> k \<Longrightarrow> k < length c \<Longrightarrow> c ! k \<noteq> None"
proof (induction "length c - i" arbitrary: i)
  case 0
  then show ?case by simp
next
  case (Suc n)
  then have lt: "i < length c" by simp
  have here: "c ! i \<noteq> None"
    using Suc.prems(1) lt by (subst (asm) validFrom.simps) (auto split: option.splits)
  show ?case
  proof (cases "k = i")
    case True
    with here show ?thesis by simp
  next
    case False
    then have k: "Suc i \<le> k" using Suc.prems(2) by simp
    have "validFrom c (Suc i) = Inr True"
      using Suc.prems(1) lt
      by (subst (asm) validFrom.simps) (auto split: option.splits if_splits)
    moreover have "n = length c - Suc i" using Suc.hyps(2) by simp
    ultimately show ?thesis
      using k Suc.prems(3) Suc.hyps(1) by blast
  qed
qed

lemma accepted_objects:
  assumes "chain s \<noteq> []" "length (chain s) < length c" "isValidChain stringify s c = Inr True"
  shows "\<exists>bs. c = map Some bs"
proof -
  have ne: "c \<noteq> []" using assms(2) by auto
  have first: "firstJson stringify c = firstJson stringify (map Some (chain s))"
    and rest: "validFrom c 1 = Inr True"
    using assms(3) by (auto simp: isValidChain_def split: if_splits)
  have "c ! 0 \<noteq> None"
    using first ne assms(1)
    by (cases c; cases "chain s")
       (auto simp: firstJson_def elemAt_def blockJson_def split: option.splits)
  moreover have "c ! k \<noteq> None" if "1 \<le> k" "k < length c" for k
    using rest that by (rule validFrom_objects)
  ultimately have "\<forall>k < length c. c ! k \<noteq> None"
    by (metis One_nat_def Suc_leI not_gr_zero)
  then have "None \<notin> set c"
    by (metis in_set_conv_nth)
  then show ?thesis
    by (simp add: no_null_objects)
qed


lemma addTransaction_invariants:
  assumes "plainGenesis s" "poolAdmitted s"
  shows "plainGenesis (snd (addTransaction s tx)) \<and> poolAdmitted (snd (addTransaction s tx))"
  using assms
  by (simp add: addTransaction_def getLatestBlock_def Let_def poolAdmitted_def plainGenesis_def)

lemma addBlock_invariants:
  assumes "plainGenesis s" "poolAdmitted s"
  shows "plainGenesis (snd (addBlock stringify s blk v g)) \<and>
         poolAdmitted (snd (addBlock stringify s blk v g))"
proof -
  have ne: "chain s \<noteq> []" using assms(1) by (simp add: plainGenesis_def)
  show ?thesis
  proof (cases "\<exists>txs. transactions blk = Value (map Some txs)")
    case True
    then obtain txs where "transactions blk = Value (map Some txs)" ..
    then show ?thesis
      using assms ne
      by (simp add: addBlock_returns poolAdmitted_def plainGenesis_def list_all_iff nth_append)
  next
    case False
    then show ?thesis
      using assms ne
      by (simp add: addBlock_throws poolAdmitted_def plainGenesis_def nth_append)
  qed
qed

lemma replaceChain_invariants:
  assumes "plainGenesis s" "poolAdmitted s"
  shows "plainGenesis (snd (replaceChain stringify s c)) \<and>
         poolAdmitted (snd (replaceChain stringify s c))"
proof -
  have ne: "chain s \<noteq> []" and plain: "list_all plainProperty (chain s ! 0)"
    using assms(1) by (simp_all add: plainGenesis_def)
  show ?thesis
  proof (cases "length (chain s) < length c \<and> isValidChain stringify s c = Inr True")
    case False
    then have "snd (replaceChain stringify s c) = s"
      by (auto simp: replaceChain_def split: sum.splits bool.splits)
    with assms show ?thesis by simp
  next
    case True
    then obtain bs where c: "c = map Some bs"
      using accepted_objects [OF ne] by blast
    have "replaceChain stringify s (map Some bs) = (Inr True, s\<lparr>chain := bs\<rparr>)
        \<or> replaceChain stringify s (map Some bs) = (Inr False, s)"
      by (simp add: replaceChain_cases [OF ne assms(2)])
    moreover have "replaceChain stringify s (map Some bs) \<noteq> (Inr False, s)"
      using True c
      by (auto simp: replaceChain_def split: sum.splits bool.splits prod.splits)
    ultimately have r: "replaceChain stringify s c = (Inr True, s\<lparr>chain := bs\<rparr>)"
      using c by simp
    have acc: "blockJson stringify (bs ! 0) = blockJson stringify (chain s ! 0)" "bs \<noteq> []"
      using r True c replaceChain_cases [OF ne assms(2), of stringify bs]
      by (auto split: if_splits)
    then have "definedProperties (bs ! 0) = definedProperties (chain s ! 0)"
      using blockJson_eq_iff [OF plain] by simp
    then have "list_all plainProperty (bs ! 0)"
      using plain by (rule same_text_plain [rotated])
    then show ?thesis
      using r acc(2) assms(2) by (simp add: plainGenesis_def poolAdmitted_def)
  qed
qed

subsection \<open>Examples\<close>


lemma exPending_chain: "chain exPending = [genesisBlock 1700000000000 4]"
  by (simp add: exPending_def exNode_chain)

lemma exPending_invariants: "plainGenesis exPending \<and> poolAdmitted exPending"
  by (simp add: exPending_def exNode_chain poolAdmitted_def plainGenesis_def genesisBlock_plain
      exTx_def rejectedAtSubmission_def falsy_def leZero_def)

lemma linked_pair:
  assumes "previousHash b = hash a" "isValidBlockStructure b"
  shows "\<forall>i. 1 \<le> i \<and> i < length [a, b] \<longrightarrow>
           previousHash ([a, b] ! i) = hash ([a, b] ! (i - 1)) \<and> isValidBlockStructure ([a, b] ! i)"
proof (intro allI impI)
  fix i :: nat
  assume "1 \<le> i \<and> i < length [a, b]"
  then have "i = 1" by simp
  then show "previousHash ([a, b] ! i) = hash ([a, b] ! (i - 1)) \<and> isValidBlockStructure ([a, b] ! i)"
    using assms by simp
qed

lemma unlinked_pair:
  assumes "previousHash b \<noteq> hash a"
  shows "\<not> (\<forall>i. 1 \<le> i \<and> i < length [a, b] \<longrightarrow>
           previousHash ([a, b] ! i) = hash ([a, b] ! (i - 1)) \<and> isValidBlockStructure ([a, b] ! i))"
proof
  assume all: "\<forall>i. 1 \<le> i \<and> i < length [a, b] \<longrightarrow>
           previousHash ([a, b] ! i) = hash ([a, b] ! (i - 1)) \<and> isValidBlockStructure ([a, b] ! i)"
  have "(1::nat) \<le> 1 \<and> 1 < length [a, b]" by simp
  with all have "previousHash ([a, b] ! 1) = hash ([a, b] ! (1 - 1))" by blast
  with assms show False by simp
qed

lemma zeros_not_f00d: "''f00d'' \<noteq> replicate 64 CHR ''0''"
proof
  assume "''f00d'' = replicate 64 CHR ''0''"
  then have "length ''f00d'' = length (replicate 64 CHR ''0'')" by simp
  then show False by simp
qed

lemma genesis_hash: "hash (genesisBlock now d) = Value (replicate 64 CHR ''0'')"
  by (simp add: genesisBlock_def)

lemma exBlock_links:
  "previousHash exBlock = hash (genesisBlock now d)"
  "previousHash (setIndex k exBlock) = hash (genesisBlock now d)"
  "isValidBlockStructure (setIndex k exBlock) \<longleftrightarrow> typeofNumber k = TypeNumber"
  "previousHash (setPreviousHash (Value ''f00d'') exBlock) \<noteq> hash (genesisBlock now d)"
  using zeros_not_f00d
  by (simp_all add: exBlock_def genesis_hash isValidBlockStructure_def typeofNumber_def
      typeofString_def typeofArray_def)

lemma exOddBlock_links:
  "previousHash exOddBlock = hash (genesisBlock now d)" "isValidBlockStructure exOddBlock"
  by (simp_all add: exOddBlock_def genesis_hash isValidBlockStructure_def typeofNumber_def
      typeofString_def typeofArray_def)

lemma replaceChain_genesis:
  assumes "chain s = [genesisBlock now d]" "poolAdmitted s"
  shows "replaceChain stringify s (map Some c) =
     (if 1 < length c
         \<and> definedProperties (c ! 0) = definedProperties (genesisBlock now d)
         \<and> (\<forall>i. 1 \<le> i \<and> i < length c \<longrightarrow>
               previousHash (c ! i) = hash (c ! (i - 1)) \<and> isValidBlockStructure (c ! i))
      then (Inr True, s\<lparr>chain := c\<rparr>)
      else (Inr False, s))"
proof -
  have ne: "chain s \<noteq> []" by (simp add: assms(1))
  have plain: "list_all plainProperty (chain s ! 0)"
    by (simp add: assms(1) genesisBlock_plain)
  show ?thesis
    using replaceChain_cases [OF ne assms(2), of stringify c]
    by (simp only: blockJson_eq_iff [OF plain]) (simp add: assms(1))
qed

lemmas replaceChain_exPending =
  replaceChain_genesis [OF exPending_chain conjunct2 [OF exPending_invariants]]


lemma exCandidate_accepted:
  "replaceChain stringify exPending (map Some exCandidate)
     = (Inr True, exPending\<lparr>chain := exCandidate\<rparr>)"
proof -
  have "\<forall>i. 1 \<le> i \<and> i < length exCandidate \<longrightarrow>
      previousHash (exCandidate ! i) = hash (exCandidate ! (i - 1)) \<and>
      isValidBlockStructure (exCandidate ! i)"
    unfolding exCandidate_def
    by (rule linked_pair) (simp_all add: exBlock_links typeofNumber_def)
  moreover have "1 < length exCandidate" "exCandidate ! 0 = genesisBlock 1700000000000 4"
    by (simp_all add: exCandidate_def)
  ultimately show ?thesis
    by (intro trans [OF replaceChain_exPending if_P]) simp
qed


subsection \<open>Fork choice\<close>

text \<open>
  C1 (as amended). Candidates are arrays of block objects. On a node whose first block is
  plain, as the constructor's genesis block is, and whose pending transactions all passed
  the guard of \<^verbatim>\<open>addTransaction\<close>, \<^verbatim>\<open>replaceChain\<close> returns \<^verbatim>\<open>true\<close> and installs the
  candidate exactly when the candidate is longer than the local chain, the JSON text of
  its first block is the JSON text of the local first block, and every later block points
  at its predecessor's hash and passes the six \<^verbatim>\<open>typeof\<close> tests of
  \<^verbatim>\<open>isValidBlockStructure\<close>. The two texts are equal exactly when the two blocks have the
  same defined properties with the same values in the same order (\<open>blockJson_eq_iff\<close>).
  When a condition fails the call returns \<^verbatim>\<open>false\<close> and the node is unchanged. After
  acceptance the local chain is the candidate, so the two have the same length.
\<close>

theorem replaceChain_accepts_iff:
  assumes "plainGenesis s" and "poolAdmitted s"
  shows "replaceChain stringify s (map Some c) =
     (if length (chain s) < length c
         \<and> definedProperties (c ! 0) = definedProperties (chain s ! 0)
         \<and> (\<forall>i. 1 \<le> i \<and> i < length c \<longrightarrow>
               previousHash (c ! i) = hash (c ! (i - 1)) \<and> isValidBlockStructure (c ! i))
      then (Inr True, s\<lparr>chain := c\<rparr>)
      else (Inr False, s))"
proof -
  have ne: "chain s \<noteq> []" and plain: "list_all plainProperty (chain s ! 0)"
    using assms(1) by (simp_all add: plainGenesis_def)
  show ?thesis
    by (simp only: replaceChain_cases [OF ne assms(2)] blockJson_eq_iff [OF plain])
qed

theorem replaceChain_accepts_iff_witness:
  "\<forall>stringify.
     plainGenesis exPending \<and> poolAdmitted exPending \<and>
     replaceChain stringify exPending (map Some exCandidate)
       = (Inr True, exPending\<lparr>chain := exCandidate\<rparr>) \<and>
     replaceChain stringify exPending (map Some [genesisBlock 1700000000000 4])
       = (Inr False, exPending) \<and>
     replaceChain stringify exPending
       (map Some [genesisBlock 1700000000000 4, setPreviousHash (Value ''f00d'') exBlock])
       = (Inr False, exPending) \<and>
     replaceChain stringify exPending (map Some [exOtherGenesis, setIndex (Value (Num 1)) exBlock])
       = (Inr False, exPending)"
proof
  fix stringify :: "transaction \<Rightarrow> string"
  let ?g = "genesisBlock 1700000000000 4"
  let ?bad = "[?g, setPreviousHash (Value ''f00d'') exBlock]"
  let ?other = "[exOtherGenesis, setIndex (Value (Num 1)) exBlock]"
  note inv = exPending_invariants
  note t = replaceChain_accepts_iff [OF conjunct1 [OF inv] conjunct2 [OF inv], of stringify]
  have len: "length (chain exPending) < length exCandidate"
    by (simp add: exPending_chain exCandidate_def)
  have gen: "definedProperties (exCandidate ! 0) = definedProperties (chain exPending ! 0)"
    by (simp add: exPending_chain exCandidate_def)
  have links: "\<forall>i. 1 \<le> i \<and> i < length exCandidate \<longrightarrow>
      previousHash (exCandidate ! i) = hash (exCandidate ! (i - 1)) \<and>
      isValidBlockStructure (exCandidate ! i)"
    unfolding exCandidate_def
    by (rule linked_pair) (simp_all add: exBlock_links typeofNumber_def)
  have a: "replaceChain stringify exPending (map Some exCandidate)
      = (Inr True, exPending\<lparr>chain := exCandidate\<rparr>)"
    by (rule trans [OF t [of exCandidate] if_P]) (intro conjI len gen links)
  have "\<not> length (chain exPending) < length [?g]"
    by (simp add: exPending_chain)
  then have b: "replaceChain stringify exPending (map Some [?g]) = (Inr False, exPending)"
    by (intro trans [OF t [of "[?g]"] if_not_P]) blast
  have "\<not> (\<forall>i. 1 \<le> i \<and> i < length ?bad \<longrightarrow>
      previousHash (?bad ! i) = hash (?bad ! (i - 1)) \<and> isValidBlockStructure (?bad ! i))"
    by (rule unlinked_pair) (rule exBlock_links)
  then have c: "replaceChain stringify exPending (map Some ?bad) = (Inr False, exPending)"
    by (intro trans [OF t [of ?bad] if_not_P]) blast
  have "definedProperties (?other ! 0) \<noteq> definedProperties (chain exPending ! 0)"
    by (simp add: exPending_chain exOtherGenesis_def genesisBlock_def definedProperties_def)
  then have d: "replaceChain stringify exPending (map Some ?other) = (Inr False, exPending)"
    by (intro trans [OF t [of ?other] if_not_P]) blast
  show "plainGenesis exPending \<and> poolAdmitted exPending \<and>
     replaceChain stringify exPending (map Some exCandidate)
       = (Inr True, exPending\<lparr>chain := exCandidate\<rparr>) \<and>
     replaceChain stringify exPending (map Some [?g]) = (Inr False, exPending) \<and>
     replaceChain stringify exPending (map Some ?bad) = (Inr False, exPending) \<and>
     replaceChain stringify exPending (map Some ?other) = (Inr False, exPending)"
    using inv a b c d by (intro conjI) (simp_all only: simp_thms)
qed

text \<open>Three candidates on which the code differs from "the first block equals the local
  genesis block and the chain is valid": the local genesis block with its index property
  written last is refused, although the candidate is longer and its second block links
  and passes the structure test; a second block whose index is \<^verbatim>\<open>NaN\<close>, whose transactions
  property is \<^verbatim>\<open>null\<close> and whose hash is \<^verbatim>\<open>zz\<close> is accepted; and a candidate with a \<^verbatim>\<open>null\<close>
  element makes the call throw a \<^verbatim>\<open>TypeError\<close> instead of returning \<^verbatim>\<open>false\<close>.\<close>

theorem replaceChain_genesis_counterexample:
  "\<forall>stringify.
     mset exReorderedGenesis = mset (chain exPending ! 0) \<and>
     length (chain exPending) < length [exReorderedGenesis, setIndex (Value (Num 1)) exBlock] \<and>
     previousHash (setIndex (Value (Num 1)) exBlock) = hash exReorderedGenesis \<and>
     isValidBlockStructure (setIndex (Value (Num 1)) exBlock) \<and>
     replaceChain stringify exPending
       (map Some [exReorderedGenesis, setIndex (Value (Num 1)) exBlock]) = (Inr False, exPending) \<and>
     index exOddBlock = Value NaN \<and> transactions exOddBlock = Null \<and>
     hash exOddBlock = Value ''zz'' \<and>
     replaceChain stringify exPending (map Some [genesisBlock 1700000000000 4, exOddBlock])
       = (Inr True, exPending\<lparr>chain := [genesisBlock 1700000000000 4, exOddBlock]\<rparr>) \<and>
     replaceChain stringify exPending [Some (genesisBlock 1700000000000 4), None]
       = (Inl TypeError, exPending)"
proof
  fix stringify :: "transaction \<Rightarrow> string"
  let ?g = "genesisBlock 1700000000000 4"
  let ?re = "[exReorderedGenesis, setIndex (Value (Num 1)) exBlock]"
  have m: "mset exReorderedGenesis = mset (chain exPending ! 0)"
    by (simp add: exPending_chain exReorderedGenesis_def genesisBlock_def)
  have l: "length (chain exPending) < length ?re"
    by (simp add: exPending_chain)
  have k: "previousHash (setIndex (Value (Num 1)) exBlock) = hash exReorderedGenesis"
    "isValidBlockStructure (setIndex (Value (Num 1)) exBlock)"
    by (simp_all add: exReorderedGenesis_def exBlock_def isValidBlockStructure_def
        typeofNumber_def typeofString_def typeofArray_def)
  have "definedProperties (?re ! 0) \<noteq> definedProperties ?g"
    by (simp add: exReorderedGenesis_def genesisBlock_def definedProperties_def)
  then have r: "replaceChain stringify exPending (map Some ?re) = (Inr False, exPending)"
    by (intro trans [OF replaceChain_exPending if_not_P]) blast
  have "\<forall>i. 1 \<le> i \<and> i < length [?g, exOddBlock] \<longrightarrow>
      previousHash ([?g, exOddBlock] ! i) = hash ([?g, exOddBlock] ! (i - 1)) \<and>
      isValidBlockStructure ([?g, exOddBlock] ! i)"
    by (rule linked_pair) (rule exOddBlock_links)+
  then have o: "replaceChain stringify exPending (map Some [?g, exOddBlock])
       = (Inr True, exPending\<lparr>chain := [?g, exOddBlock]\<rparr>)"
    by (intro trans [OF replaceChain_exPending if_P]) simp
  have f: "index exOddBlock = Value NaN" "transactions exOddBlock = Null"
    "hash exOddBlock = Value ''zz''"
    by (simp_all add: exOddBlock_def)
  have "validFrom [Some ?g, None] 1 = Inl TypeError"
    by (subst validFrom.simps) simp
  then have n: "replaceChain stringify exPending [Some ?g, None] = (Inl TypeError, exPending)"
    by (simp add: replaceChain_def isValidChain_def firstJson_def elemAt_def exPending_chain)
  show "mset exReorderedGenesis = mset (chain exPending ! 0) \<and>
     length (chain exPending) < length ?re \<and>
     previousHash (setIndex (Value (Num 1)) exBlock) = hash exReorderedGenesis \<and>
     isValidBlockStructure (setIndex (Value (Num 1)) exBlock) \<and>
     replaceChain stringify exPending (map Some ?re) = (Inr False, exPending) \<and>
     index exOddBlock = Value NaN \<and> transactions exOddBlock = Null \<and>
     hash exOddBlock = Value ''zz'' \<and>
     replaceChain stringify exPending (map Some [?g, exOddBlock])
       = (Inr True, exPending\<lparr>chain := [?g, exOddBlock]\<rparr>) \<and>
     replaceChain stringify exPending [Some ?g, None] = (Inl TypeError, exPending)"
    using m l k r o f n by (intro conjI) (simp_all only: simp_thms)
qed

text \<open>
  C8 (the code re-admits every pending transaction). With \<open>exTx\<close> pending, the node
  accepts a candidate chain whose second block already holds \<open>exTx\<close>; afterwards \<open>exTx\<close>
  is still pending. \<^verbatim>\<open>reprocessPendingTransactions\<close> never looks at the new chain.
\<close>

theorem replaceChain_readmits_included:
  "fst (replaceChain stringify exPending (map Some exCandidate)) = Inr True \<and>
   transactions (exCandidate ! 1) = Value [Some exTx] \<and>
   currentTransactions exPending = [exTx] \<and>
   currentTransactions (snd (replaceChain stringify exPending (map Some exCandidate))) = [exTx]"
proof -
  have "transactions (exCandidate ! 1) = Value [Some exTx]"
    by (simp add: exCandidate_def exBlock_def)
  moreover have "currentTransactions exPending = [exTx]"
    by (simp add: exPending_def)
  ultimately show ?thesis
    by (simp add: exCandidate_accepted)
qed

subsection \<open>Appending a block\<close>




text \<open>
  C10 (as amended). For every block whose transactions property holds an array of
  transaction objects (no element is \<^verbatim>\<open>null\<close> or \<^verbatim>\<open>undefined\<close>), on a node that holds its
  genesis block, \<^verbatim>\<open>addBlock\<close> returns \<^verbatim>\<open>true\<close> and the chain grows by exactly one block,
  whatever the block's other properties hold and whether or not \<^verbatim>\<open>isValidBlockStructure\<close>
  accepts it; the validator and signature arguments have no influence on the outcome.
\<close>

theorem addBlock_succeeds:
  assumes "chain s \<noteq> []" and "transactions blk = Value (map Some txs)"
  shows "fst (addBlock stringify s blk v g) = Inr True
     \<and> length (chain (snd (addBlock stringify s blk v g))) = length (chain s) + 1
     \<and> addBlock stringify s blk v' g' = addBlock stringify s blk v g"
  using addBlock_returns [OF assms, of stringify v g] addBlock_returns [OF assms, of stringify v' g']
  by simp

theorem addBlock_succeeds_witness:
  "\<forall>stringify.
     chain exNode \<noteq> [] \<and> transactions exLooseBlock = Value (map Some []) \<and>
     \<not> isValidBlockStructure exLooseBlock \<and>
     fst (addBlock stringify exNode exLooseBlock ''nobody'' []) = Inr True \<and>
     length (chain (snd (addBlock stringify exNode exLooseBlock ''nobody'' []))) = 2"
proof
  fix stringify :: "transaction \<Rightarrow> string"
  have ne: "chain exNode \<noteq> []"
    by (simp add: exNode_chain)
  have txs: "transactions exLooseBlock = Value (map Some [])"
    by (simp add: exLooseBlock_def)
  have bad: "\<not> isValidBlockStructure exLooseBlock"
    by (simp add: exLooseBlock_def isValidBlockStructure_def typeofNumber_def)
  show "chain exNode \<noteq> [] \<and> transactions exLooseBlock = Value (map Some []) \<and>
     \<not> isValidBlockStructure exLooseBlock \<and>
     fst (addBlock stringify exNode exLooseBlock ''nobody'' []) = Inr True \<and>
     length (chain (snd (addBlock stringify exNode exLooseBlock ''nobody'' []))) = 2"
    using ne txs bad addBlock_succeeds [OF ne txs, of stringify "''nobody''" "[]"]
    by (simp add: exNode_chain)
qed

text \<open>A block without a transactions property, and a block that passes
  \<^verbatim>\<open>isValidBlockStructure\<close> while its transactions array holds \<^verbatim>\<open>null\<close>: \<^verbatim>\<open>addBlock\<close> throws a
  \<^verbatim>\<open>TypeError\<close> after it pushed the block, and the pending pool is not filtered.\<close>

theorem addBlock_throws_counterexample:
  "\<forall>stringify.
     fst (addBlock stringify exNode exBareBlock ''alice'' ''s1'') = Inl TypeError \<and>
     fst (addBlock stringify exNode exBareBlock ''alice'' ''s1'') \<noteq> Inr True \<and>
     length (chain (snd (addBlock stringify exNode exBareBlock ''alice'' ''s1''))) = 2 \<and>
     isValidBlockStructure exNullTxBlock \<and>
     fst (addBlock stringify exPending exNullTxBlock ''alice'' ''s3'') = Inl TypeError \<and>
     length (chain (snd (addBlock stringify exPending exNullTxBlock ''alice'' ''s3''))) = 2 \<and>
     currentTransactions (snd (addBlock stringify exPending exNullTxBlock ''alice'' ''s3''))
       = [exTx]"
proof
  fix stringify :: "transaction \<Rightarrow> string"
  have ne: "chain exNode \<noteq> []" "chain exPending \<noteq> []"
    by (simp_all add: exNode_chain exPending_chain)
  have bare: "\<not> (\<exists>txs. transactions exBareBlock = Value (map Some txs))"
    by (simp add: exBareBlock_def)
  have nul: "\<not> (\<exists>txs. transactions exNullTxBlock = Value (map Some txs))"
    by (simp add: exNullTxBlock_def Cons_eq_map_conv)
  have ok: "isValidBlockStructure exNullTxBlock"
    by (simp add: exNullTxBlock_def isValidBlockStructure_def typeofNumber_def typeofString_def
        typeofArray_def)
  have pool: "currentTransactions exPending = [exTx]"
    by (simp add: exPending_def)
  show "fst (addBlock stringify exNode exBareBlock ''alice'' ''s1'') = Inl TypeError \<and>
     fst (addBlock stringify exNode exBareBlock ''alice'' ''s1'') \<noteq> Inr True \<and>
     length (chain (snd (addBlock stringify exNode exBareBlock ''alice'' ''s1''))) = 2 \<and>
     isValidBlockStructure exNullTxBlock \<and>
     fst (addBlock stringify exPending exNullTxBlock ''alice'' ''s3'') = Inl TypeError \<and>
     length (chain (snd (addBlock stringify exPending exNullTxBlock ''alice'' ''s3''))) = 2 \<and>
     currentTransactions (snd (addBlock stringify exPending exNullTxBlock ''alice'' ''s3''))
       = [exTx]"
    using ok pool
    by (simp add: addBlock_throws [OF ne(1) bare] addBlock_throws [OF ne(2) nul]
        exNode_chain exPending_chain)
qed

subsection \<open>Vote ledger\<close>

lemma update_list_all:
  "list_all P al \<Longrightarrow> P (k, v) \<Longrightarrow> list_all P (AList.update k v al)"
  by (induction al) auto

lemma delete_list_all: "list_all P al \<Longrightarrow> list_all P (AList.delete k al)"
  by (induction al) auto

lemma stakeOf_entry:
  assumes "ledgerPositive ledger"
  shows "delegate \<in> fst ` set ledger \<longleftrightarrow> 0 < stakeOf ledger delegate"
proof
  assume "delegate \<in> fst ` set ledger"
  then obtain v where v: "map_of ledger delegate = Some v"
    by (metis domD dom_map_of_conv_image_fst)
  then have "(delegate, v) \<in> set ledger" by (rule map_of_SomeD)
  then have "0 < v"
    using assms by (auto simp: ledgerPositive_def list_all_iff)
  with v show "0 < stakeOf ledger delegate" by (simp add: stakeOf_def)
next
  assume "0 < stakeOf ledger delegate"
  then have "map_of ledger delegate \<noteq> None"
    by (auto simp: stakeOf_def split: option.splits)
  then show "delegate \<in> fst ` set ledger"
    by (metis domIff dom_map_of_conv_image_fst)
qed

lemma stakeOf_nonneg:
  assumes "ledgerPositive ledger"
  shows "0 \<le> stakeOf ledger delegate"
proof (cases "map_of ledger delegate")
  case None
  then show ?thesis by (simp add: stakeOf_def)
next
  case (Some v)
  then have "(delegate, v) \<in> set ledger" by (rule map_of_SomeD)
  then have "0 < v"
    using assms by (auto simp: ledgerPositive_def list_all_iff)
  with Some show ?thesis by (simp add: stakeOf_def)
qed

lemma registerVote_positive:
  assumes "ledgerPositive (votes s)" "0 < stake"
  shows "ledgerPositive (votes (registerVote s voter delegate stake))"
  using assms stakeOf_nonneg [OF assms(1), of delegate]
  by (simp add: registerVote_def Let_def ledgerPositive_def update_list_all)

lemma removeVote_positive:
  assumes "ledgerPositive (votes s)"
  shows "ledgerPositive (votes (removeVote s voter delegate stake))"
  using assms
  by (simp add: removeVote_def Let_def ledgerPositive_def update_list_all delete_list_all)

lemma applyVoteOps_positive:
  assumes "list_all positiveStake ops" "ledgerPositive (votes s)"
  shows "ledgerPositive (votes (applyVoteOps s ops))"
  using assms unfolding applyVoteOps_def
proof (induction ops arbitrary: s)
  case Nil
  then show ?case by simp
next
  case (Cons x ops)
  then show ?case
    by (cases x) (simp_all add: registerVote_positive removeVote_positive)
qed

lemma removeVote_to_zero:
  assumes "stakeOf (votes s) delegate \<le> stake"
  shows "delegate \<notin> fst ` set (votes (removeVote s voter delegate stake))"
  using assms by (simp add: removeVote_def Let_def delete_notin_dom)

text \<open>
  C4 (as amended). After any sequence of \<^verbatim>\<open>registerVote\<close> calls with a stake above zero
  and \<^verbatim>\<open>removeVote\<close> calls with any stake, starting from the empty ledger of a new
  \<^verbatim>\<open>DPoSConsensus\<close>, every stored stake is above zero; a delegate has an entry exactly
  when its stake (\<^verbatim>\<open>votes.get(delegate) || 0\<close>) is above zero; and a \<^verbatim>\<open>removeVote\<close> that
  takes a delegate's stake down to zero or below leaves the delegate without an entry.
\<close>

theorem voteLedger_positive:
  assumes "list_all positiveStake ops"
  shows "(\<forall>entry \<in> set (votes (applyVoteOps (newConsensus n b e) ops)). 0 < snd entry)
     \<and> (\<forall>delegate. delegate \<in> fst ` set (votes (applyVoteOps (newConsensus n b e) ops))
            \<longleftrightarrow> 0 < stakeOf (votes (applyVoteOps (newConsensus n b e) ops)) delegate)
     \<and> (\<forall>voter delegate stake.
            stakeOf (votes (applyVoteOps (newConsensus n b e) ops)) delegate - stake \<le> 0 \<longrightarrow>
            delegate \<notin> fst ` set
              (votes (removeVote (applyVoteOps (newConsensus n b e) ops) voter delegate stake)))"
proof -
  have "ledgerPositive (votes (newConsensus n b e))"
    by (simp add: newConsensus_def ledgerPositive_def)
  then have pos: "ledgerPositive (votes (applyVoteOps (newConsensus n b e) ops))"
    using assms by (rule applyVoteOps_positive [rotated])
  then have "\<forall>entry \<in> set (votes (applyVoteOps (newConsensus n b e) ops)). 0 < snd entry"
    by (simp add: ledgerPositive_def list_all_iff)
  moreover have "\<forall>delegate. delegate \<in> fst ` set (votes (applyVoteOps (newConsensus n b e) ops))
            \<longleftrightarrow> 0 < stakeOf (votes (applyVoteOps (newConsensus n b e) ops)) delegate"
    using stakeOf_entry [OF pos] by blast
  moreover have "\<forall>voter delegate stake.
            stakeOf (votes (applyVoteOps (newConsensus n b e) ops)) delegate - stake \<le> 0 \<longrightarrow>
            delegate \<notin> fst ` set
              (votes (removeVote (applyVoteOps (newConsensus n b e) ops) voter delegate stake))"
    using removeVote_to_zero by simp
  ultimately show ?thesis by blast
qed

lemma exVotes_ledger:
  "votes (applyVoteOps (newConsensus None None None) exVotes) = [(''B'', 10000)]"
  by (simp add: applyVoteOps_def exVotes_def registerVote_def removeVote_def stakeOf_def
      newConsensus_def Let_def)

theorem voteLedger_positive_witness:
  "list_all positiveStake exVotes \<and>
   votes (applyVoteOps (newConsensus None None None) exVotes) = [(''B'', 10000)] \<and>
   ''A'' \<notin> fst ` set (votes (applyVoteOps (newConsensus None None None) exVotes)) \<and>
   0 < stakeOf (votes (applyVoteOps (newConsensus None None None) exVotes)) ''B'' \<and>
   ''B'' \<notin> fst ` set (votes (removeVote (applyVoteOps (newConsensus None None None) exVotes)
                            ''v2'' ''B'' 10000))"
proof -
  have ops: "list_all positiveStake exVotes"
    by (simp add: exVotes_def)
  note t = voteLedger_positive [OF ops, of None None None]
  have "''B'' \<in> fst ` set (votes (applyVoteOps (newConsensus None None None) exVotes))"
    by (simp add: exVotes_ledger)
  then have b: "0 < stakeOf (votes (applyVoteOps (newConsensus None None None) exVotes)) ''B''"
    using t by blast
  have a: "''A'' \<notin> fst ` set (votes (applyVoteOps (newConsensus None None None) exVotes))"
    by (simp add: exVotes_ledger)
  have "stakeOf (votes (applyVoteOps (newConsensus None None None) exVotes)) ''B'' - 10000 \<le> 0"
    by (simp add: exVotes_ledger stakeOf_def)
  then have c: "''B'' \<notin> fst ` set (votes (removeVote
      (applyVoteOps (newConsensus None None None) exVotes) ''v2'' ''B'' 10000))"
    using t by blast
  show ?thesis
    using ops exVotes_ledger a b c by simp
qed

theorem voteLedger_zero_counterexample:
  "votes (applyVoteOps (newConsensus None None None) [RegisterVote ''v1'' ''A'' 0]) = [(''A'', 0)] \<and>
   votes (applyVoteOps (newConsensus None None None) [RegisterVote ''v1'' ''A'' (- 5)])
     = [(''A'', - 5)]"
  by (simp add: applyVoteOps_def registerVote_def stakeOf_def newConsensus_def Let_def)

subsection \<open>Delegate ranking\<close>

lemma createDelegateSchedule_delegates [simp]:
  "activeDelegates (createDelegateSchedule sha256 now s) = activeDelegates s"
  "standbyDelegates (createDelegateSchedule sha256 now s) = standbyDelegates s"
  "votes (createDelegateSchedule sha256 now s) = votes s"
  by (simp_all add: createDelegateSchedule_def)

lemma sortedEntries_descending:
  "sorted_wrt (\<lambda>a b. snd b \<le> snd a) (sortedEntries ledger)"
proof -
  have "sorted (map (\<lambda>entry. - snd entry) (sortedEntries ledger))"
    unfolding sortedEntries_def by (rule sorted_sort_key)
  then show ?thesis
    by (simp add: sorted_wrt_map)
qed

lemma sortedEntries_stable:
  "filter (\<lambda>entry. snd entry = k) (sortedEntries ledger) = filter (\<lambda>entry. snd entry = k) ledger"
proof -
  have "filter (\<lambda>entry. - snd entry = - k) (sort_key (\<lambda>entry. - snd entry) ledger)
      = filter (\<lambda>entry. - snd entry = - k) ledger"
    by (rule sort_key_stable)
  then show ?thesis
    by (simp add: sortedEntries_def)
qed

text \<open>
  C7 (as amended). \<^verbatim>\<open>updateDelegates\<close> sets the active delegates to the first
  \<open>delegateCount\<close> addresses, and the standby delegates to the remaining addresses, of the
  ledger's entries ranked by stake: the ranking is a rearrangement of the ledger's
  entries, in descending order of stake, in which entries of equal stake keep the order
  they have in the ledger (its insertion order). With the votes 20000 for A and 15000
  for B and one slot, A is active and B on standby.
\<close>

theorem updateDelegates_ranking:
  "activeDelegates (updateDelegates sha256 now s)
      = take (delegateCount s) (map fst (sortedEntries (votes s)))
   \<and> standbyDelegates (updateDelegates sha256 now s)
      = drop (delegateCount s) (map fst (sortedEntries (votes s)))
   \<and> mset (sortedEntries (votes s)) = mset (votes s)
   \<and> sorted_wrt (\<lambda>a b. snd b \<le> snd a) (sortedEntries (votes s))
   \<and> (\<forall>k. filter (\<lambda>entry. snd entry = k) (sortedEntries (votes s))
          = filter (\<lambda>entry. snd entry = k) (votes s))"
  using sortedEntries_descending [of "votes s"] sortedEntries_stable [of _ "votes s"]
  by (simp add: updateDelegates_def Let_def) (simp add: sortedEntries_def)

lemma exElection_fields:
  "votes exElection = [(''A'', 20000), (''B'', 15000)]" "delegateCount exElection = 1"
  by (simp_all add: exElection_def registerVote_def stakeOf_def newConsensus_def orDefault_def Let_def)

theorem updateDelegates_ranking_witness:
  "\<forall>sha256 now.
     activeDelegates (updateDelegates sha256 now exElection) = [''A''] \<and>
     standbyDelegates (updateDelegates sha256 now exElection) = [''B'']"
proof (intro allI)
  fix sha256 :: "string \<Rightarrow> 256 word" and now :: nat
  have r: "sortedEntries [(''A'', 20000), (''B'', 15000)] = [(''A'', 20000), (''B'', 15000)]"
    by (simp add: sortedEntries_def)
  show "activeDelegates (updateDelegates sha256 now exElection) = [''A''] \<and>
     standbyDelegates (updateDelegates sha256 now exElection) = [''B'']"
    using updateDelegates_ranking [of sha256 now exElection]
    by (simp add: r exElection_fields)
qed

theorem updateDelegates_tie_counterexample:
  "\<forall>sha256 now.
     votes exTieBA = [(''B'', 100), (''A'', 100)] \<and>
     votes exTieAB = [(''A'', 100), (''B'', 100)] \<and>
     activeDelegates (updateDelegates sha256 now exTieBA) = [''B''] \<and>
     activeDelegates (updateDelegates sha256 now exTieAB) = [''A'']"
  by (simp add: updateDelegates_def exTieBA_def exTieAB_def registerVote_def stakeOf_def
      newConsensus_def orDefault_def Let_def sortedEntries_def)

subsection \<open>Authorization\<close>

lemma exElected_fields:
  "activeDelegates (exElected sha256 now) = [''A'']"
  "delegateSchedule (exElected sha256 now) = [''A'']"
  "currentProducer (exElected sha256 now) = 0"
  "lastBlockTime (exElected sha256 now) = 0"
  "dposBlockTime (exElected sha256 now) = 3"
  by (simp_all add: exElected_def updateDelegates_def exElection_fields sortedEntries_def Let_def
      createDelegateSchedule_def shuffleDelegates_def)
     (simp_all add: exElection_def registerVote_def newConsensus_def orDefault_def Let_def)

text \<open>
  C2 (the code authorizes everyone). After the election of the example, A is the only
  active delegate and the producer the schedule expects at time 7000; \<^verbatim>\<open>isAuthorized\<close>
  nevertheless answers \<^verbatim>\<open>true\<close> for an address that received no vote. The statements
  that compare the address with the expected producer stand after \<^verbatim>\<open>return true\<close>.
\<close>

theorem isAuthorized_allows_anyone:
  "isAuthorized (exElected sha256 now) ''mallory'' 7000 = True \<and>
   ''mallory'' \<notin> set (activeDelegates (exElected sha256 now)) \<and>
   expectedProducer (exElected sha256 now) 7000 = Some ''A'' \<and>
   isAuthorizedUnreachable (exElected sha256 now) ''mallory'' 7000 = False"
  by (simp add: isAuthorized_def isAuthorizedUnreachable_def expectedProducer_def exElected_fields
      elemAt_def Let_def)

subsection \<open>Producer schedule\<close>

text \<open>The shuffle rearranges its argument: the schedule is a permutation of the active
  delegates.\<close>

lemma shuffleLoop_mset:
  "k < length ds \<or> k = 0 \<Longrightarrow> mset (shuffleLoop seed k ds) = mset ds"
proof (induction k arbitrary: ds)
  case 0
  then show ?case by simp
next
  case (Suc k)
  then have len: "Suc k < length ds" by simp
  let ?j = "seedWindow seed (Suc k mod 32) mod (Suc k + 1)"
  have "?j < Suc k + 1"
    by (rule mod_less_divisor) simp
  then have j: "?j < length ds"
    using len by arith
  have "mset (ds[Suc k := ds ! ?j, ?j := ds ! Suc k]) = mset ds"
    using j len by (rule mset_swap)
  moreover have "k < length (ds[Suc k := ds ! ?j, ?j := ds ! Suc k]) \<or> k = 0"
    using len by simp
  ultimately show ?case
    using Suc.IH [of "ds[Suc k := ds ! ?j, ?j := ds ! Suc k]"] by (simp add: Let_def)
qed

lemma shuffleDelegates_mset: "mset (shuffleDelegates sha256 now ds) = mset ds"
proof -
  have "length ds - 1 < length ds \<or> length ds - 1 = 0"
    by (cases ds) simp_all
  then show ?thesis
    by (simp add: shuffleDelegates_def Let_def shuffleLoop_mset)
qed

lemma exLedger_fields:
  "votes exLedger = [(''A'', 20000), (''B'', 15000)]" "delegateCount exLedger = 21"
  by (simp_all add: exLedger_def registerVote_def stakeOf_def newConsensus_def orDefault_def Let_def)

lemma exLedger_active:
  "activeDelegates (updateDelegates sha256 now exLedger) = [''A'', ''B'']"
  by (simp add: updateDelegates_def Let_def exLedger_fields sortedEntries_def)

lemma shuffle_pair:
  "shuffleDelegates sha256 now [a, b] =
     (if even (seedWindow (sha256 (toString now)) 1) then [b, a] else [a, b])"
proof -
  define j where "j = seedWindow (sha256 (toString now)) 1 mod 2"
  have r: "shuffleDelegates sha256 now [a, b] = [a, b][Suc 0 := [a, b] ! j, j := [a, b] ! Suc 0]"
    by (simp add: shuffleDelegates_def Let_def j_def numeral_2_eq_2)
  have e: "even (seedWindow (sha256 (toString now)) 1) \<longleftrightarrow> j = 0"
    by (simp only: j_def even_iff_mod_2_eq_zero)
  have "j < 2"
    unfolding j_def by (rule mod_less_divisor) simp
  then have "j = 0 \<or> j = Suc 0"
    by arith
  then show ?thesis
  proof
    assume "j = 0"
    then show ?thesis using r e by simp
  next
    assume "j = Suc 0"
    then show ?thesis using r e by simp
  qed
qed

lemma exLedger_schedule:
  "delegateSchedule (updateDelegates sha256 now exLedger) =
     (if even (seedWindow (sha256 (toString now)) 1) then [''B'', ''A''] else [''A'', ''B''])"
  by (simp add: updateDelegates_def Let_def exLedger_fields sortedEntries_def
      createDelegateSchedule_def shuffle_pair)

lemma exDigest_windows:
  "seedWindow (exDigest (toString (Suc 0))) (Suc 0) = 0"
  "seedWindow (exDigest (toString 2)) (Suc 0) = 1"
proof -
  have s1: "toString (Suc 0) = ''1''" and s2: "toString 2 = ''2''"
    by (simp_all add: toString.simps)
  show "seedWindow (exDigest (toString (Suc 0))) (Suc 0) = 0"
    by (simp add: s1 exDigest_def seedWindow_def)
  have "unat (of_nat (16 ^ 55) :: 256 word) = 16 ^ 55"
    by (simp add: unat_of_nat take_bit_nat_eq_self)
  then show "seedWindow (exDigest (toString 2)) (Suc 0) = 1"
    by (simp add: s2 exDigest_def seedWindow_def)
qed

text \<open>
  C3 (the schedule is seeded from the wall clock). Two nodes hold the ledger of the
  example, A with 20000 and B with 15000, and run \<^verbatim>\<open>updateDelegates\<close> at the clock readings
  \<open>t1\<close> and \<open>t2\<close>. They end with the same ledger and the same active delegates, but each
  schedule is decided by the parity of one window of the SHA-256 digest of the node's own
  clock reading: the two schedules agree exactly when the two windows have the same
  parity. Nothing of the chain's state enters the seed.
\<close>

theorem schedule_follows_clock:
  "votes (updateDelegates sha256 t1 exLedger) = votes (updateDelegates sha256 t2 exLedger)
   \<and> activeDelegates (updateDelegates sha256 t1 exLedger)
       = activeDelegates (updateDelegates sha256 t2 exLedger)
   \<and> delegateSchedule (updateDelegates sha256 t1 exLedger) =
       (if even (seedWindow (sha256 (toString t1)) 1) then [''B'', ''A''] else [''A'', ''B''])
   \<and> (delegateSchedule (updateDelegates sha256 t1 exLedger)
        = delegateSchedule (updateDelegates sha256 t2 exLedger)
       \<longleftrightarrow> (even (seedWindow (sha256 (toString t1)) 1)
            \<longleftrightarrow> even (seedWindow (sha256 (toString t2)) 1)))"
  by (simp add: exLedger_schedule exLedger_active) (simp add: updateDelegates_def Let_def)

theorem schedule_follows_clock_witness:
  "delegateSchedule (updateDelegates exDigest 1 exLedger) = [''B'', ''A''] \<and>
   delegateSchedule (updateDelegates exDigest 2 exLedger) = [''A'', ''B'']"
  using schedule_follows_clock [of exDigest 1 2] schedule_follows_clock [of exDigest 2 1]
  by (simp add: exDigest_windows)

end
